theory Spec2Isabelle
  imports Main "HOL-Library.Word"
begin

unbundle bit_operations_syntax

section \<open>Aligned and large-page allocation of misc.cpp\<close>

text \<open>
  The functions \<^verbatim>\<open>std_aligned_alloc\<close>, \<^verbatim>\<open>std_aligned_free\<close>,
  \<^verbatim>\<open>aligned_large_pages_alloc_windows\<close>, \<^verbatim>\<open>aligned_large_pages_alloc\<close> and
  \<^verbatim>\<open>aligned_large_pages_free\<close> of \<^verbatim>\<open>src/misc.cpp\<close> are sequences of calls into the C
  runtime and the operating system. They are embedded as functions of
  \<^item> the build configuration (the preprocessor symbols the \<^verbatim>\<open>#if\<close> chains test),
  \<^item> an environment that gives the answer of every runtime and system call (the calls are
    not part of the repository, so their answers are parameters, universally quantified in
    the theorems), and
  \<^item> the arguments of the C++ function.
  The result of a run is its outcome (the value returned, or the status the process
  exited with) and the list of the calls made, in order, each with its arguments and its
  answer.
\<close>

subsection \<open>Machine types and header constants\<close>

text \<open>
  \<^verbatim>\<open>size_t\<close> and pointers are 64 bits wide: the body of the Windows helper is compiled
  only under \<^verbatim>\<open>_WIN64\<close>, and the other code is read for a 64-bit target. Arithmetic on
  \<^verbatim>\<open>size_t\<close> wraps around. The null pointer is the word 0.
\<close>

type_synonym size_t = "64 word"
type_synonym ptr = "64 word"
type_synonym dword = "32 word"
type_synonym handle = "64 word"
type_synonym luid = "64 word"

text \<open>\<^verbatim>\<open>TOKEN_PRIVILEGES\<close>: \<^verbatim>\<open>PrivilegeCount\<close> entries of \<^verbatim>\<open>(Luid, Attributes)\<close>.\<close>

type_synonym token_privileges = "(luid \<times> dword) list"

text \<open>The privileges a process token holds, with their attributes.\<close>

type_synonym privilege_set = "(luid \<times> dword) list"

definition nullptr :: ptr where
  "nullptr = 0"

text \<open>Values of the Windows, Linux and C headers the code names.\<close>

definition MEM_COMMIT :: dword where "MEM_COMMIT = 0x1000"
definition MEM_RESERVE :: dword where "MEM_RESERVE = 0x2000"
definition MEM_RELEASE :: dword where "MEM_RELEASE = 0x8000"
definition MEM_LARGE_PAGES :: dword where "MEM_LARGE_PAGES = 0x20000000"
definition PAGE_READWRITE :: dword where "PAGE_READWRITE = 0x04"
definition TOKEN_ADJUST_PRIVILEGES :: dword where "TOKEN_ADJUST_PRIVILEGES = 0x20"
definition TOKEN_QUERY :: dword where "TOKEN_QUERY = 0x8"
definition SE_PRIVILEGE_ENABLED :: dword where "SE_PRIVILEGE_ENABLED = 0x2"
definition ERROR_SUCCESS :: dword where "ERROR_SUCCESS = 0"
definition sizeof_TOKEN_PRIVILEGES :: dword where "sizeof_TOKEN_PRIVILEGES = 16"
definition MADV_HUGEPAGE :: int where "MADV_HUGEPAGE = 14"
definition EXIT_FAILURE :: int where "EXIT_FAILURE = 1"
definition sizeof_pointer :: nat where "sizeof_pointer = 8"

subsection \<open>Build configuration\<close>

text \<open>One field per preprocessor symbol tested by the allocation code.\<close>

record build =
  def_POSIXALIGNEDALLOC :: bool
  def_WIN32 :: bool
  def_WIN64 :: bool
  def_M_ARM :: bool
  def_M_ARM64 :: bool
  def_linux :: bool
  def_MADV_HUGEPAGE :: bool

subsection \<open>Calls and runs\<close>

text \<open>
  A call of the runtime or the system, with its arguments in the callee's own order,
  followed by its answer where it has one the code can read.
\<close>

datatype event =
    Call_posix_memalign size_t size_t int ptr
  | Call_mm_malloc size_t size_t ptr
  | Call_aligned_malloc size_t size_t ptr
  | Call_aligned_alloc size_t size_t ptr
  | Call_free ptr
  | Call_mm_free ptr
  | Call_aligned_free ptr
  | Call_madvise ptr size_t int
  | Call_GetLargePageMinimum size_t
  | Call_GetModuleHandle string ptr
  | Call_LoadLibrary string ptr
  | Call_GetProcAddress ptr string ptr
  | Call_OpenProcessToken handle dword bool handle
  | Call_LookupPrivilegeValue string bool luid
  | Call_AdjustTokenPrivileges handle token_privileges dword bool
  | Call_GetLastError dword
  | Call_VirtualAlloc size_t dword dword ptr
  | Call_VirtualFree ptr size_t dword bool
  | Call_CloseHandle handle
  | Write_cerr string

datatype 'a outcome = Returned 'a | Exited int

record 'a run =
  outcome :: "'a outcome"
  trace :: "event list"

subsection \<open>The C runtime\<close>

text \<open>
  The aligned allocators of the four back ends. \<open>posix_memalign rt alignment size\<close> is
  the return code and the pointer stored through the first argument;
  \<open>mm_malloc rt size alignment\<close>, \<open>aligned_malloc rt size alignment\<close> and
  \<open>aligned_alloc rt alignment size\<close> are the pointers returned. \<open>writable rt p n\<close> says
  that, after the call, the \<open>n\<close> bytes from address \<open>p\<close> may be written.
\<close>

record crt =
  posix_memalign :: "size_t \<Rightarrow> size_t \<Rightarrow> int \<times> ptr"
  mm_malloc :: "size_t \<Rightarrow> size_t \<Rightarrow> ptr"
  aligned_malloc :: "size_t \<Rightarrow> size_t \<Rightarrow> ptr"
  aligned_alloc :: "size_t \<Rightarrow> size_t \<Rightarrow> ptr"
  writable :: "ptr \<Rightarrow> size_t \<Rightarrow> bool"

text \<open>\<^verbatim>\<open>void* std_aligned_alloc(size_t alignment, size_t size)\<close>\<close>

definition std_aligned_alloc :: "build \<Rightarrow> crt \<Rightarrow> size_t \<Rightarrow> size_t \<Rightarrow> ptr run" where
  "std_aligned_alloc cfg rt alignment sz =
     (if def_POSIXALIGNEDALLOC cfg then
        (let (rc, mem) = posix_memalign rt alignment sz in
         \<lparr>outcome = Returned (if rc \<noteq> 0 then nullptr else mem),
          trace = [Call_posix_memalign alignment sz rc mem]\<rparr>)
      else if def_WIN32 cfg \<and> \<not> def_M_ARM cfg \<and> \<not> def_M_ARM64 cfg then
        (let mem = mm_malloc rt sz alignment in
         \<lparr>outcome = Returned mem, trace = [Call_mm_malloc sz alignment mem]\<rparr>)
      else if def_WIN32 cfg then
        (let mem = aligned_malloc rt sz alignment in
         \<lparr>outcome = Returned mem, trace = [Call_aligned_malloc sz alignment mem]\<rparr>)
      else
        (let mem = aligned_alloc rt alignment sz in
         \<lparr>outcome = Returned mem, trace = [Call_aligned_alloc alignment sz mem]\<rparr>))"

text \<open>\<^verbatim>\<open>void std_aligned_free(void* ptr)\<close>\<close>

definition std_aligned_free :: "build \<Rightarrow> ptr \<Rightarrow> unit run" where
  "std_aligned_free cfg p =
     (if def_POSIXALIGNEDALLOC cfg then
        \<lparr>outcome = Returned (), trace = [Call_free p]\<rparr>
      else if def_WIN32 cfg \<and> \<not> def_M_ARM cfg \<and> \<not> def_M_ARM64 cfg then
        \<lparr>outcome = Returned (), trace = [Call_mm_free p]\<rparr>
      else if def_WIN32 cfg then
        \<lparr>outcome = Returned (), trace = [Call_aligned_free p]\<rparr>
      else
        \<lparr>outcome = Returned (), trace = [Call_free p]\<rparr>)"

subsection \<open>The Windows API\<close>

text \<open>
  The answers of the system calls of the Windows code. \<open>OpenProcessToken os process access\<close>
  is the result and the token handle stored; \<open>LookupPrivilegeValue os name\<close> is the result and
  the identifier stored; \<open>VirtualFree os mem size type\<close> is the result and the error code a
  following \<^verbatim>\<open>GetLastError\<close> reads. \<open>readwrite os p n\<close> says that, after the call, the
  \<open>n\<close> bytes from address \<open>p\<close> may be read and written.
  \<open>AdjustTokenPrivileges os token newState bufferLength\<close>
  acts on the privileges of the process: from the privileges before the call it gives the
  result, the error code a following \<^verbatim>\<open>GetLastError\<close> reads, the previous state it
  stores, and the privileges after the call.
\<close>

record win32 =
  GetLargePageMinimum :: size_t
  GetModuleHandle :: "string \<Rightarrow> ptr"
  LoadLibrary :: "string \<Rightarrow> ptr"
  GetProcAddress :: "ptr \<Rightarrow> string \<Rightarrow> ptr"
  GetCurrentProcess :: handle
  OpenProcessToken :: "handle \<Rightarrow> dword \<Rightarrow> bool \<times> handle"
  LookupPrivilegeValue :: "string \<Rightarrow> bool \<times> luid"
  AdjustTokenPrivileges ::
    "handle \<Rightarrow> token_privileges \<Rightarrow> dword \<Rightarrow> privilege_set
       \<Rightarrow> (bool \<times> dword \<times> token_privileges) \<times> privilege_set"
  VirtualAlloc :: "size_t \<Rightarrow> dword \<Rightarrow> dword \<Rightarrow> ptr"
  VirtualFree :: "ptr \<Rightarrow> size_t \<Rightarrow> dword \<Rightarrow> bool \<times> dword"
  readwrite :: "ptr \<Rightarrow> size_t \<Rightarrow> bool"

text \<open>
  \<^verbatim>\<open>static void* aligned_large_pages_alloc_windows(size_t allocSize)\<close>, with the
  privileges of the process before the call as a further argument and those after it as a
  further result.
\<close>

definition aligned_large_pages_alloc_windows ::
  "build \<Rightarrow> win32 \<Rightarrow> size_t \<Rightarrow> privilege_set \<Rightarrow> ptr run \<times> privilege_set" where
  "aligned_large_pages_alloc_windows cfg os allocSize privs =
     (if \<not> def_WIN64 cfg then (\<lparr>outcome = Returned nullptr, trace = []\<rparr>, privs)
      else
        let largePageSize = GetLargePageMinimum os;
            t1 = [Call_GetLargePageMinimum largePageSize]
        in
        if largePageSize = 0 then (\<lparr>outcome = Returned nullptr, trace = t1\<rparr>, privs)
        else
        let h0 = GetModuleHandle os ''advapi32.dll'';
            t2 = t1 @ [Call_GetModuleHandle ''advapi32.dll'' h0];
            hAdvapi32 = (if h0 = 0 then LoadLibrary os ''advapi32.dll'' else h0);
            t3 = (if h0 = 0 then t2 @ [Call_LoadLibrary ''advapi32.dll'' hAdvapi32] else t2);
            fun6 = GetProcAddress os hAdvapi32 ''OpenProcessToken'';
            t4 = t3 @ [Call_GetProcAddress hAdvapi32 ''OpenProcessToken'' fun6]
        in
        if fun6 = 0 then (\<lparr>outcome = Returned nullptr, trace = t4\<rparr>, privs)
        else
        let fun7 = GetProcAddress os hAdvapi32 ''LookupPrivilegeValueA'';
            t5 = t4 @ [Call_GetProcAddress hAdvapi32 ''LookupPrivilegeValueA'' fun7]
        in
        if fun7 = 0 then (\<lparr>outcome = Returned nullptr, trace = t5\<rparr>, privs)
        else
        let fun8 = GetProcAddress os hAdvapi32 ''AdjustTokenPrivileges'';
            t6 = t5 @ [Call_GetProcAddress hAdvapi32 ''AdjustTokenPrivileges'' fun8]
        in
        if fun8 = 0 then (\<lparr>outcome = Returned nullptr, trace = t6\<rparr>, privs)
        else
        let access = TOKEN_ADJUST_PRIVILEGES OR TOKEN_QUERY;
            (opened, hProcessToken) = OpenProcessToken os (GetCurrentProcess os) access;
            t7 = t6 @ [Call_OpenProcessToken (GetCurrentProcess os) access opened hProcessToken]
        in
        if \<not> opened then (\<lparr>outcome = Returned nullptr, trace = t7\<rparr>, privs)
        else
        let (found, luid) = LookupPrivilegeValue os ''SeLockMemoryPrivilege'';
            t8 = t7 @ [Call_LookupPrivilegeValue ''SeLockMemoryPrivilege'' found luid];
            (mem, t9, privs') =
              (if found then
                 let tp = [(luid, SE_PRIVILEGE_ENABLED)];
                     ((adjusted, err, prevTp), privs1) =
                       AdjustTokenPrivileges os hProcessToken tp sizeof_TOKEN_PRIVILEGES privs;
                     ta = t8 @ [Call_AdjustTokenPrivileges hProcessToken tp
                                  sizeof_TOKEN_PRIVILEGES adjusted];
                     tb = (if adjusted then ta @ [Call_GetLastError err] else ta)
                 in
                 if adjusted \<and> err = ERROR_SUCCESS then
                   let allocSize' = (allocSize + largePageSize - 1) AND NOT (largePageSize - 1);
                       type = MEM_RESERVE OR MEM_COMMIT OR MEM_LARGE_PAGES;
                       mem = VirtualAlloc os allocSize' type PAGE_READWRITE;
                       tc = tb @ [Call_VirtualAlloc allocSize' type PAGE_READWRITE mem];
                       ((restored, _, _), privs2) =
                         AdjustTokenPrivileges os hProcessToken prevTp 0 privs1;
                       td = tc @ [Call_AdjustTokenPrivileges hProcessToken prevTp 0 restored]
                   in (mem, td, privs2)
                 else (nullptr, tb, privs1)
               else (nullptr, t8, privs))
        in (\<lparr>outcome = Returned mem, trace = t9 @ [Call_CloseHandle hProcessToken]\<rparr>, privs'))"

text \<open>\<^verbatim>\<open>void* aligned_large_pages_alloc(size_t allocSize)\<close>, the definition under
  \<^verbatim>\<open>#if defined(_WIN32)\<close>.\<close>

definition aligned_large_pages_alloc_win32 ::
  "build \<Rightarrow> win32 \<Rightarrow> size_t \<Rightarrow> privilege_set \<Rightarrow> ptr run \<times> privilege_set" where
  "aligned_large_pages_alloc_win32 cfg os allocSize privs =
     (let (r, privs') = aligned_large_pages_alloc_windows cfg os allocSize privs in
      case outcome r of
        Exited c \<Rightarrow> (r, privs')
      | Returned mem \<Rightarrow>
          if mem = 0 then
            let type = MEM_RESERVE OR MEM_COMMIT;
                mem' = VirtualAlloc os allocSize type PAGE_READWRITE
            in (\<lparr>outcome = Returned mem',
                 trace = trace r @ [Call_VirtualAlloc allocSize type PAGE_READWRITE mem']\<rparr>,
                privs')
          else (\<lparr>outcome = Returned mem, trace = trace r\<rparr>, privs'))"

text \<open>\<^verbatim>\<open>void* aligned_large_pages_alloc(size_t allocSize)\<close>, the definition under
  \<^verbatim>\<open>#else\<close>.\<close>

definition aligned_large_pages_alloc_posix :: "build \<Rightarrow> crt \<Rightarrow> size_t \<Rightarrow> ptr run" where
  "aligned_large_pages_alloc_posix cfg rt allocSize =
     (let alignment = (if def_linux cfg then 2 * 1024 * 1024 else 4096);
          sz = ((allocSize + alignment - 1) div alignment) * alignment;
          r = std_aligned_alloc cfg rt alignment sz
      in
      case outcome r of
        Exited c \<Rightarrow> r
      | Returned mem \<Rightarrow>
          \<lparr>outcome = Returned mem,
           trace = trace r @
             (if def_MADV_HUGEPAGE cfg then [Call_madvise mem sz MADV_HUGEPAGE] else [])\<rparr>)"

text \<open>The definition of \<^verbatim>\<open>aligned_large_pages_alloc\<close> the build selects.\<close>

definition aligned_large_pages_alloc ::
  "build \<Rightarrow> crt \<Rightarrow> win32 \<Rightarrow> size_t \<Rightarrow> privilege_set \<Rightarrow> ptr run \<times> privilege_set" where
  "aligned_large_pages_alloc cfg rt os allocSize privs =
     (if def_WIN32 cfg then aligned_large_pages_alloc_win32 cfg os allocSize privs
      else (aligned_large_pages_alloc_posix cfg rt allocSize, privs))"

subsection \<open>Release\<close>

text \<open>What \<^verbatim>\<open>operator<<\<close> writes for an unsigned value under \<^verbatim>\<open>std::hex\<close>.\<close>

definition hex_digit :: "nat \<Rightarrow> char" where
  "hex_digit d = ''0123456789abcdef'' ! d"

fun hex_digits :: "nat \<Rightarrow> string" where
  "hex_digits n =
     (if n < 16 then [hex_digit n] else hex_digits (n div 16) @ [hex_digit (n mod 16)])"

declare hex_digits.simps [simp del]

definition endl :: string where
  "endl = [CHR 0x0A]"

text \<open>\<^verbatim>\<open>void aligned_large_pages_free(void* mem)\<close>, the definition under
  \<^verbatim>\<open>#if defined(_WIN32)\<close>.\<close>

definition aligned_large_pages_free_win32 :: "win32 \<Rightarrow> ptr \<Rightarrow> unit run" where
  "aligned_large_pages_free_win32 os mem =
     (if mem \<noteq> 0 then
        let (freed, code) = VirtualFree os mem 0 MEM_RELEASE;
            t1 = [Call_VirtualFree mem 0 MEM_RELEASE freed]
        in
        if \<not> freed then
          let err = code in
          \<lparr>outcome = Exited EXIT_FAILURE,
           trace = t1 @ [Call_GetLastError err,
                         Write_cerr ''Failed to free large page memory. Error code: 0x'',
                         Write_cerr (hex_digits (unat err)),
                         Write_cerr endl]\<rparr>
        else \<lparr>outcome = Returned (), trace = t1\<rparr>
      else \<lparr>outcome = Returned (), trace = []\<rparr>)"

text \<open>The definition of \<^verbatim>\<open>aligned_large_pages_free\<close> the build selects; under
  \<^verbatim>\<open>#else\<close> it is \<^verbatim>\<open>std_aligned_free(mem)\<close>.\<close>

definition aligned_large_pages_free :: "build \<Rightarrow> win32 \<Rightarrow> ptr \<Rightarrow> unit run" where
  "aligned_large_pages_free cfg os mem =
     (if def_WIN32 cfg then aligned_large_pages_free_win32 os mem
      else std_aligned_free cfg mem)"

subsection \<open>Observations on a run\<close>

text \<open>
  The pointers a trace releases. \<^verbatim>\<open>free\<close>, \<^verbatim>\<open>_mm_free\<close> and \<^verbatim>\<open>_aligned_free\<close> do nothing
  when given a null pointer; \<^verbatim>\<open>VirtualFree\<close> releases when it reports success.
\<close>

fun released_by :: "event \<Rightarrow> ptr list" where
  "released_by (Call_free p) = (if p = 0 then [] else [p])"
| "released_by (Call_mm_free p) = (if p = 0 then [] else [p])"
| "released_by (Call_aligned_free p) = (if p = 0 then [] else [p])"
| "released_by (Call_VirtualFree p n ty freed) = (if freed then [p] else [])"
| "released_by _ = []"

definition released :: "event list \<Rightarrow> ptr list" where
  "released tr = concat (map released_by tr)"

text \<open>The text a trace writes to \<^verbatim>\<open>std::cerr\<close>.\<close>

fun written_by :: "event \<Rightarrow> string" where
  "written_by (Write_cerr s) = s"
| "written_by _ = []"

definition cerr_text :: "event list \<Rightarrow> string" where
  "cerr_text tr = concat (map written_by tr)"

text \<open>The sizes a trace asks the allocators for, in order.\<close>

fun requested_by :: "event \<Rightarrow> size_t list" where
  "requested_by (Call_posix_memalign a n rc m) = [n]"
| "requested_by (Call_mm_malloc n a m) = [n]"
| "requested_by (Call_aligned_malloc n a m) = [n]"
| "requested_by (Call_aligned_alloc a n m) = [n]"
| "requested_by (Call_VirtualAlloc n ty pr m) = [n]"
| "requested_by _ = []"

definition requested :: "event list \<Rightarrow> size_t list" where
  "requested tr = concat (map requested_by tr)"

text \<open>A \<^verbatim>\<open>VirtualAlloc\<close> call whose allocation type has the large-page flag.\<close>

fun large_page_request :: "event \<Rightarrow> bool" where
  "large_page_request (Call_VirtualAlloc n ty pr m) = (ty AND MEM_LARGE_PAGES \<noteq> 0)"
| "large_page_request _ = False"

fun madvise_call :: "event \<Rightarrow> bool" where
  "madvise_call (Call_madvise p n advice) = True"
| "madvise_call _ = False"

subsection \<open>The steps of the privilege negotiation, read from the environment\<close>

text \<open>The module handle the entry points are looked up in.\<close>

definition advapi32 :: "win32 \<Rightarrow> ptr" where
  "advapi32 os =
     (if GetModuleHandle os ''advapi32.dll'' = 0 then LoadLibrary os ''advapi32.dll''
      else GetModuleHandle os ''advapi32.dll'')"

definition token_opened :: "win32 \<Rightarrow> bool" where
  "token_opened os =
     fst (OpenProcessToken os (GetCurrentProcess os) (TOKEN_ADJUST_PRIVILEGES OR TOKEN_QUERY))"

definition process_token :: "win32 \<Rightarrow> handle" where
  "process_token os =
     snd (OpenProcessToken os (GetCurrentProcess os) (TOKEN_ADJUST_PRIVILEGES OR TOKEN_QUERY))"

definition privilege_found :: "win32 \<Rightarrow> bool" where
  "privilege_found os = fst (LookupPrivilegeValue os ''SeLockMemoryPrivilege'')"

definition lock_memory_luid :: "win32 \<Rightarrow> luid" where
  "lock_memory_luid os = snd (LookupPrivilegeValue os ''SeLockMemoryPrivilege'')"

text \<open>The answer of the call that asks to enable the privilege.\<close>

definition enable_call ::
  "win32 \<Rightarrow> privilege_set \<Rightarrow> (bool \<times> dword \<times> token_privileges) \<times> privilege_set" where
  "enable_call os privs =
     AdjustTokenPrivileges os (process_token os)
       [(lock_memory_luid os, SE_PRIVILEGE_ENABLED)] sizeof_TOKEN_PRIVILEGES privs"

definition adjusted :: "win32 \<Rightarrow> privilege_set \<Rightarrow> bool" where
  "adjusted os privs = fst (fst (enable_call os privs))"

definition adjust_error :: "win32 \<Rightarrow> privilege_set \<Rightarrow> dword" where
  "adjust_error os privs = fst (snd (fst (enable_call os privs)))"

definition saved_state :: "win32 \<Rightarrow> privilege_set \<Rightarrow> token_privileges" where
  "saved_state os privs = snd (snd (fst (enable_call os privs)))"

definition privs_enabled :: "win32 \<Rightarrow> privilege_set \<Rightarrow> privilege_set" where
  "privs_enabled os privs = snd (enable_call os privs)"

text \<open>
  Every step up to and including the enabling of the privilege succeeded, and
  \<^verbatim>\<open>GetLastError\<close> confirmed it.
\<close>

definition lock_memory_enabled :: "build \<Rightarrow> win32 \<Rightarrow> privilege_set \<Rightarrow> bool" where
  "lock_memory_enabled cfg os privs =
     (def_WIN64 cfg \<and> GetLargePageMinimum os \<noteq> 0
      \<and> GetProcAddress os (advapi32 os) ''OpenProcessToken'' \<noteq> 0
      \<and> GetProcAddress os (advapi32 os) ''LookupPrivilegeValueA'' \<noteq> 0
      \<and> GetProcAddress os (advapi32 os) ''AdjustTokenPrivileges'' \<noteq> 0
      \<and> token_opened os \<and> privilege_found os
      \<and> adjusted os privs \<and> adjust_error os privs = ERROR_SUCCESS)"


subsection \<open>Alignment and rounding\<close>

definition power_of_two :: "size_t \<Rightarrow> bool" where
  "power_of_two a = (\<exists>k<64. a = 2 ^ k)"

definition valid_alignment :: "size_t \<Rightarrow> bool" where
  "valid_alignment a = (power_of_two a \<and> unat a mod sizeof_pointer = 0)"

text \<open>The result of an aligned allocation: null, or aligned and writable for the size.\<close>

definition aligned_or_null :: "crt \<Rightarrow> size_t \<Rightarrow> size_t \<Rightarrow> ptr \<Rightarrow> bool" where
  "aligned_or_null rt a n p = (p = nullptr \<or> (unat p mod unat a = 0 \<and> writable rt p n))"

text \<open>
  The contracts of the allocators: each of the four aligned allocators gives, for a valid
  alignment, null or an aligned block writable for the size; \<^verbatim>\<open>VirtualAlloc\<close> with
  \<^verbatim>\<open>PAGE_READWRITE\<close> gives null or a block that may be read and written for the size; and
  a block usable for \<open>n\<close> bytes is usable for fewer.
\<close>

definition crt_contract :: "crt \<Rightarrow> bool" where
  "crt_contract rt =
     ((\<forall>a n m. valid_alignment a \<longrightarrow> posix_memalign rt a n = (0, m)
          \<longrightarrow> aligned_or_null rt a n m)
      \<and> (\<forall>a n. valid_alignment a \<longrightarrow> aligned_or_null rt a n (mm_malloc rt n a))
      \<and> (\<forall>a n. valid_alignment a \<longrightarrow> aligned_or_null rt a n (aligned_malloc rt n a))
      \<and> (\<forall>a n. valid_alignment a \<longrightarrow> aligned_or_null rt a n (aligned_alloc rt a n))
      \<and> (\<forall>p n m. writable rt p n \<longrightarrow> m \<le> n \<longrightarrow> writable rt p m))"

definition virtual_alloc_contract :: "win32 \<Rightarrow> bool" where
  "virtual_alloc_contract os =
     ((\<forall>n ty. VirtualAlloc os n ty PAGE_READWRITE = nullptr
          \<or> readwrite os (VirtualAlloc os n ty PAGE_READWRITE) n)
      \<and> (\<forall>p n m. readwrite os p n \<longrightarrow> m \<le> n \<longrightarrow> readwrite os p m))"

text \<open>The page size the non-Windows code assumes.\<close>

definition assumed_page_size :: "build \<Rightarrow> size_t" where
  "assumed_page_size cfg = (if def_linux cfg then 2 * 1024 * 1024 else 4096)"

text \<open>The least multiple of \<open>g\<close> that is at least \<open>n\<close>, on the natural numbers.\<close>

definition round_up :: "nat \<Rightarrow> nat \<Rightarrow> nat" where
  "round_up n g = ((n + g - 1) div g) * g"

subsection \<open>Example systems\<close>

definition win64_build :: build where
  "win64_build = \<lparr>def_POSIXALIGNEDALLOC = False, def_WIN32 = True, def_WIN64 = True,
     def_M_ARM = False, def_M_ARM64 = False, def_linux = False, def_MADV_HUGEPAGE = False\<rparr>"

definition win32_only_build :: build where
  "win32_only_build = win64_build\<lparr>def_WIN64 := False\<rparr>"

definition linux_build :: build where
  "linux_build = \<lparr>def_POSIXALIGNEDALLOC = False, def_WIN32 = False, def_WIN64 = False,
     def_M_ARM = False, def_M_ARM64 = False, def_linux = True, def_MADV_HUGEPAGE = True\<rparr>"

definition posix_build :: build where
  "posix_build = \<lparr>def_POSIXALIGNEDALLOC = True, def_WIN32 = False, def_WIN64 = False,
     def_M_ARM = False, def_M_ARM64 = False, def_linux = False, def_MADV_HUGEPAGE = False\<rparr>"

text \<open>A runtime whose allocators hand out the block at address \<open>0x40000000\<close>, or nothing
  when the alignment does not divide that address or the size exceeds 1 GiB.\<close>

definition block_at :: "size_t \<Rightarrow> size_t \<Rightarrow> ptr" where
  "block_at a n =
     (if a \<noteq> 0 \<and> 0x40000000 mod a = 0 \<and> n \<le> 0x40000000 then 0x40000000 else 0)"

definition sample_crt :: crt where
  "sample_crt =
     \<lparr>posix_memalign = (\<lambda>a n. if block_at a n = 0 then (12, 0) else (0, block_at a n)),
      mm_malloc = (\<lambda>n a. block_at a n),
      aligned_malloc = (\<lambda>n a. block_at a n),
      aligned_alloc = (\<lambda>a n. block_at a n),
      writable = (\<lambda>p n. p = 0x40000000 \<and> n \<le> 0x40000000)\<rparr>"

text \<open>
  A token: when it holds every privilege named, the call sets their attributes and
  stores the entries it changed; otherwise it changes nothing and leaves
  \<^verbatim>\<open>ERROR_NOT_ALL_ASSIGNED\<close> (1300).
\<close>

definition adjust_token ::
  "handle \<Rightarrow> token_privileges \<Rightarrow> dword \<Rightarrow> privilege_set
     \<Rightarrow> (bool \<times> dword \<times> token_privileges) \<times> privilege_set" where
  "adjust_token h newState len privs =
     (if list_all (\<lambda>(l, a). l \<in> set (map fst privs)) newState then
        ((True, ERROR_SUCCESS,
          filter (\<lambda>(l, a). map_of newState l \<noteq> None \<and> map_of newState l \<noteq> Some a) privs),
         map (\<lambda>(l, a). (l, case map_of newState l of Some a' \<Rightarrow> a' | None \<Rightarrow> a)) privs)
      else ((True, 1300, []), privs))"

text \<open>A 64-bit Windows with 2 MiB large pages on which every call succeeds.\<close>

definition granting_os :: win32 where
  "granting_os = \<lparr>GetLargePageMinimum = 0x200000,
     GetModuleHandle = (\<lambda>name. 0x7FF80000),
     LoadLibrary = (\<lambda>name. 0x7FF80000),
     GetProcAddress = (\<lambda>module name. 0x7FF81000),
     GetCurrentProcess = - 1,
     OpenProcessToken = (\<lambda>process access. (True, 0x44)),
     LookupPrivilegeValue = (\<lambda>name. (True, 4)),
     AdjustTokenPrivileges = adjust_token,
     VirtualAlloc = (\<lambda>n ty pr. 0x40000000),
     VirtualFree = (\<lambda>p n ty. (True, 0)),
     readwrite = (\<lambda>p n. p = 0x40000000)\<rparr>"

text \<open>The same system with \<^verbatim>\<open>VirtualFree\<close> failing with \<^verbatim>\<open>ERROR_INVALID_ADDRESS\<close> (487).\<close>

definition failing_free_os :: win32 where
  "failing_free_os = granting_os\<lparr>VirtualFree := (\<lambda>p n ty. (False, 487))\<rparr>"

text \<open>The same system with large-page allocation failing.\<close>

definition no_large_memory_os :: win32 where
  "no_large_memory_os =
     granting_os\<lparr>VirtualAlloc :=
       (\<lambda>n ty pr. if ty AND MEM_LARGE_PAGES \<noteq> 0 then 0 else 0x40000000)\<rparr>"

text \<open>A process that holds the lock-memory privilege (identifier 4) disabled, and one that
  does not hold it.\<close>

definition holding_privs :: privilege_set where
  "holding_privs = [(4, 0), (23, 3)]"

definition lacking_privs :: privilege_set where
  "lacking_privs = [(23, 3)]"

section \<open>Properties\<close>

subsection \<open>Auxiliary facts\<close>

lemmas negotiation_defs =
  advapi32_def token_opened_def process_token_def privilege_found_def lock_memory_luid_def
  enable_call_def adjusted_def adjust_error_def saved_state_def privs_enabled_def

lemma hex_digit_not_newline: "d < 16 \<Longrightarrow> hex_digit d \<noteq> CHR 0x0A"
proof -
  assume "d < 16"
  then have "d \<in> set [0..<16]" by simp
  then show ?thesis
    unfolding hex_digit_def
    by (simp add: upt_rec) (elim disjE; simp)
qed

lemma hex_digits_no_newline: "CHR 0x0A \<notin> set (hex_digits n)"
proof (induction n rule: hex_digits.induct)
  case (1 n)
  show ?case
  proof (cases "n < 16")
    case True
    then show ?thesis
      using hex_digit_not_newline [of n] by (subst hex_digits.simps) auto
  next
    case False
    have "n mod 16 < 16" by simp
    then have "hex_digit (n mod 16) \<noteq> CHR 0x0A" by (rule hex_digit_not_newline)
    with False 1 show ?thesis by (subst hex_digits.simps) auto
  qed
qed

lemma count_list_absent: "x \<notin> set xs \<Longrightarrow> count_list xs x = 0"
  by (induction xs) auto

lemma sample_crt_aligned: "aligned_or_null sample_crt a n (block_at a n)"
proof (cases "block_at a n = 0")
  case True
  then show ?thesis by (simp add: aligned_or_null_def nullptr_def)
next
  case False
  then have b: "block_at a n = 0x40000000" and a: "(0x40000000 :: 64 word) mod a = 0"
    and n: "n \<le> 0x40000000"
    by (auto simp: block_at_def split: if_splits)
  have "unat ((0x40000000 :: 64 word) mod a) = 0" by (simp add: a)
  then have "unat (0x40000000 :: 64 word) mod unat a = 0" by (simp only: unat_mod)
  then show ?thesis using n by (simp add: aligned_or_null_def b sample_crt_def)
qed

lemmas example_defs =
  win64_build_def win32_only_build_def linux_build_def posix_build_def
  granting_os_def no_large_memory_os_def failing_free_os_def
  holding_privs_def lacking_privs_def adjust_token_def sample_crt_def block_at_def

lemmas header_defs =
  MEM_COMMIT_def MEM_RESERVE_def MEM_RELEASE_def MEM_LARGE_PAGES_def PAGE_READWRITE_def
  TOKEN_ADJUST_PRIVILEGES_def TOKEN_QUERY_def SE_PRIVILEGE_ENABLED_def ERROR_SUCCESS_def
  sizeof_TOKEN_PRIVILEGES_def MADV_HUGEPAGE_def nullptr_def

text \<open>Rounding on 64-bit words without wrap-around.\<close>

lemma and_not_mask_eq: "(x :: 'a::len word) AND NOT (mask k) = push_bit k (drop_bit k x)"
  by (rule bit_eqI) (auto simp: bit_simps)

lemma unat_round_down:
  "unat ((x :: 64 word) AND NOT (mask k)) = (unat x div 2 ^ k) * 2 ^ k"
proof -
  have le: "(unat x div 2 ^ k) * 2 ^ k \<le> unat x"
    by simp
  have "unat x < 2 ^ 64" using unsigned_less [of x] by simp
  with le have lt: "(unat x div 2 ^ k) * 2 ^ k < 2 ^ 64" by linarith
  have "unat (push_bit k (drop_bit k x)) = take_bit 64 (push_bit k (drop_bit k (unat x)))"
    by (simp add: unsigned_push_bit_eq unat_drop_bit_eq)
  also have "\<dots> = take_bit 64 ((unat x div 2 ^ k) * 2 ^ k)"
    by (simp add: push_bit_eq_mult drop_bit_eq_div)
  also have "\<dots> = (unat x div 2 ^ k) * 2 ^ k"
    using lt by (simp add: take_bit_nat_eq_self)
  finally show ?thesis by (simp add: and_not_mask_eq)
qed

lemma unat_2p:
  assumes "k < 64"
  shows "unat (2 ^ k :: 64 word) = 2 ^ k"
proof -
  have "take_bit 64 ((2::nat) ^ k) = 2 ^ k" using assms by simp
  moreover have "unat (push_bit k (1 :: 64 word)) = take_bit 64 (push_bit k (unat (1 :: 64 word)))"
    by (simp only: unsigned_push_bit_eq) simp
  ultimately show ?thesis by (simp add: push_bit_eq_mult)
qed

lemma unat_plus_minus_1:
  assumes "0 < unat (g :: 64 word)" and "unat s + unat g - 1 < 2 ^ 64"
  shows "unat (s + g - 1) = unat s + unat g - 1"
proof -
  have g1: "unat (g - 1) = unat g - 1"
    using assms(1) by (simp add: unat_minus_one unat_gt_0)
  have e: "s + g - 1 = s + (g - 1)" by simp
  have "unat (s + (g - 1)) = unat s + unat (g - 1)"
    using assms g1 by (simp add: unat_add_lem [THEN iffD1])
  then have "unat (s + (g - 1)) = unat s + unat g - 1" using g1 assms(1) by simp
  then show ?thesis unfolding e .
qed

lemma mask_round_up:
  assumes "k < 64" and "unat (s :: 64 word) + 2 ^ k - 1 < 2 ^ 64"
  shows "unat ((s + 2 ^ k - 1) AND NOT (2 ^ k - 1)) = ((unat s + 2 ^ k - 1) div 2 ^ k) * 2 ^ k"
proof -
  have g: "unat (2 ^ k :: 64 word) = 2 ^ k"
    by (rule unat_2p) (rule assms(1))
  have "unat (s + 2 ^ k - 1) = unat s + unat (2 ^ k :: 64 word) - 1"
    by (rule unat_plus_minus_1) (use assms g in simp_all)
  then have x: "unat (s + 2 ^ k - 1) = unat s + 2 ^ k - 1" by (simp add: g)
  have "(2 ^ k - 1 :: 64 word) = mask k" by (simp add: mask_eq_exp_minus_1)
  then show ?thesis by (simp add: unat_round_down x)
qed

lemma div_round_up:
  assumes "0 < unat (g :: 64 word)" and "unat s + unat g - 1 < 2 ^ 64"
  shows "unat (((s + g - 1) div g) * g) = ((unat s + unat g - 1) div unat g) * unat g"
proof -
  have x: "unat (s + g - 1) = unat s + unat g - 1"
    by (rule unat_plus_minus_1) (use assms in simp_all)
  have d: "unat ((s + g - 1) div g) = (unat s + unat g - 1) div unat g"
    by (simp add: unat_div x)
  have "(unat s + unat g - 1) div unat g * unat g \<le> unat s + unat g - 1"
    by simp
  then have "(unat s + unat g - 1) div unat g * unat g < 2 ^ 64"
    using assms(2) by (rule le_less_trans)
  then have "unat ((s + g - 1) div g) * unat g < 2 ^ 64"
    by (simp only: d)
  then have "unat (((s + g - 1) div g) * g) = unat ((s + g - 1) div g) * unat g"
    by (simp add: unat_mult_lem [THEN iffD1])
  then show ?thesis by (simp add: d)
qed

lemma round_up_ge: "0 < g \<Longrightarrow> n \<le> round_up n g"
proof -
  assume g: "0 < g"
  have "n + g - 1 < ((n + g - 1) div g) * g + g"
    using g by (metis add.commute dividend_less_div_times)
  then show ?thesis using g by (simp add: round_up_def)
qed

text \<open>Lists with a single element of a kind.\<close>

lemma unique_split:
  assumes "xs @ v # ys = pre @ e # post" and "P e"
    and "\<not> list_ex P xs" and "\<not> list_ex P ys"
  shows "pre = xs \<and> e = v \<and> post = ys"
  using assms
proof (induction xs arbitrary: pre)
  case Nil
  then show ?case by (cases pre) (auto simp: list_ex_iff)
next
  case (Cons x xs)
  then show ?case by (cases pre) (auto simp: list_ex_iff)
qed

lemma no_split:
  assumes "xs = pre @ e # post" and "P e" and "\<not> list_ex P xs"
  shows False
  using assms by (auto simp: list_ex_iff)

text \<open>The results of \<^verbatim>\<open>std_aligned_alloc\<close> and of the non-Windows allocation.\<close>

lemma std_aligned_alloc_returns:
  "\<exists>mem. outcome (std_aligned_alloc cfg rt a n) = Returned mem"
  by (cases "posix_memalign rt a n") (simp add: std_aligned_alloc_def Let_def)

lemma std_aligned_alloc_no_madvise:
  "\<not> list_ex madvise_call (trace (std_aligned_alloc cfg rt a n))"
  by (cases "posix_memalign rt a n") (simp add: std_aligned_alloc_def Let_def)

lemma assumed_page_size_unat:
  "unat (assumed_page_size cfg) = (if def_linux cfg then 2 * 1024 * 1024 else 4096)"
  by (simp add: assumed_page_size_def)

lemma posix_requested:
  "requested (trace (aligned_large_pages_alloc_posix cfg rt s)) =
     [((s + assumed_page_size cfg - 1) div assumed_page_size cfg) * assumed_page_size cfg]"
  by (simp add: aligned_large_pages_alloc_posix_def std_aligned_alloc_def assumed_page_size_def
      requested_def Let_def split_beta)

text \<open>The two shapes of a run of the Windows helper.\<close>

lemma regular_type_not_large: "(MEM_RESERVE OR MEM_COMMIT) AND MEM_LARGE_PAGES = 0"
  by (simp add: MEM_RESERVE_def MEM_COMMIT_def MEM_LARGE_PAGES_def)

lemma helper_enabled:
  assumes "lock_memory_enabled cfg os privs"
  shows "\<exists>pre. aligned_large_pages_alloc_windows cfg os s privs =
    (\<lparr>outcome = Returned (VirtualAlloc os
         ((s + GetLargePageMinimum os - 1) AND NOT (GetLargePageMinimum os - 1))
         (MEM_RESERVE OR MEM_COMMIT OR MEM_LARGE_PAGES) PAGE_READWRITE),
      trace = pre @
        [Call_AdjustTokenPrivileges (process_token os)
           [(lock_memory_luid os, SE_PRIVILEGE_ENABLED)] sizeof_TOKEN_PRIVILEGES True,
         Call_GetLastError ERROR_SUCCESS,
         Call_VirtualAlloc
           ((s + GetLargePageMinimum os - 1) AND NOT (GetLargePageMinimum os - 1))
           (MEM_RESERVE OR MEM_COMMIT OR MEM_LARGE_PAGES) PAGE_READWRITE
           (VirtualAlloc os
             ((s + GetLargePageMinimum os - 1) AND NOT (GetLargePageMinimum os - 1))
             (MEM_RESERVE OR MEM_COMMIT OR MEM_LARGE_PAGES) PAGE_READWRITE),
         Call_AdjustTokenPrivileges (process_token os) (saved_state os privs) 0
           (fst (fst (AdjustTokenPrivileges os (process_token os) (saved_state os privs) 0
              (privs_enabled os privs)))),
         Call_CloseHandle (process_token os)]\<rparr>,
     snd (AdjustTokenPrivileges os (process_token os) (saved_state os privs) 0
              (privs_enabled os privs)))
    \<and> \<not> list_ex large_page_request pre
    \<and> requested pre = [] \<and> cerr_text pre = []"
  using assms
  unfolding lock_memory_enabled_def negotiation_defs aligned_large_pages_alloc_windows_def
  by (simp add: Let_def split_beta requested_def cerr_text_def)

lemma helper_not_enabled:
  assumes "\<not> lock_memory_enabled cfg os privs"
  shows "outcome (fst (aligned_large_pages_alloc_windows cfg os s privs)) = Returned nullptr
    \<and> \<not> list_ex large_page_request (trace (fst (aligned_large_pages_alloc_windows cfg os s privs)))
    \<and> requested (trace (fst (aligned_large_pages_alloc_windows cfg os s privs))) = []
    \<and> cerr_text (trace (fst (aligned_large_pages_alloc_windows cfg os s privs))) = []"
  using assms
  unfolding lock_memory_enabled_def negotiation_defs aligned_large_pages_alloc_windows_def
  by (auto simp add: Let_def split_beta requested_def cerr_text_def)

lemma helper_returns:
  "\<exists>mem. outcome (fst (aligned_large_pages_alloc_windows cfg os s privs)) = Returned mem"
  by (simp add: aligned_large_pages_alloc_windows_def Let_def split_beta)

lemma helper_shape:
  "\<exists>mem tr privs'. aligned_large_pages_alloc_windows cfg os s privs =
     (\<lparr>outcome = Returned mem, trace = tr\<rparr>, privs')"
proof -
  obtain r privs' where 1: "aligned_large_pages_alloc_windows cfg os s privs = (r, privs')"
    by (cases "aligned_large_pages_alloc_windows cfg os s privs")
  obtain mem where 2: "outcome r = Returned mem"
    using helper_returns [of cfg os s privs] by (auto simp: 1)
  have "r = \<lparr>outcome = Returned mem, trace = trace r\<rparr>" using 2 by simp
  with 1 show ?thesis by metis
qed

lemma win32_alloc_unfold:
  assumes "aligned_large_pages_alloc_windows cfg os s privs = (\<lparr>outcome = Returned mem, trace = tr\<rparr>, privs')"
  shows "aligned_large_pages_alloc_win32 cfg os s privs =
    (if mem = 0 then
       (\<lparr>outcome = Returned (VirtualAlloc os s (MEM_RESERVE OR MEM_COMMIT) PAGE_READWRITE),
         trace = tr @ [Call_VirtualAlloc s (MEM_RESERVE OR MEM_COMMIT) PAGE_READWRITE
                        (VirtualAlloc os s (MEM_RESERVE OR MEM_COMMIT) PAGE_READWRITE)]\<rparr>, privs')
     else (\<lparr>outcome = Returned mem, trace = tr\<rparr>, privs'))"
  by (simp add: aligned_large_pages_alloc_win32_def assms Let_def)

text \<open>Runs on the example systems.\<close>

lemma run_granting:
  "aligned_large_pages_alloc_windows win64_build granting_os 4096 holding_privs =
   (\<lparr>outcome = Returned 0x40000000,
     trace =
       [Call_GetLargePageMinimum 2097152,
        Call_GetModuleHandle ''advapi32.dll'' 2146959360,
        Call_GetProcAddress 2146959360 ''OpenProcessToken'' 2146963456,
        Call_GetProcAddress 2146959360 ''LookupPrivilegeValueA'' 2146963456,
        Call_GetProcAddress 2146959360 ''AdjustTokenPrivileges'' 2146963456,
        Call_OpenProcessToken (- 1) 40 True 68,
        Call_LookupPrivilegeValue ''SeLockMemoryPrivilege'' True 4,
        Call_AdjustTokenPrivileges 68 [(4, 2)] 16 True, Call_GetLastError 0,
        Call_VirtualAlloc 2097152 536883200 4 0x40000000,
        Call_AdjustTokenPrivileges 68 [(4, 0)] 0 True,
        Call_CloseHandle 68]\<rparr>,
    [(4, 0), (23, 3)])"
  by (simp add: aligned_large_pages_alloc_windows_def example_defs header_defs Let_def)

lemma run_lacking:
  "aligned_large_pages_alloc_win32 win64_build granting_os 1 lacking_privs =
   (\<lparr>outcome = Returned 0x40000000,
     trace =
       [Call_GetLargePageMinimum 2097152,
        Call_GetModuleHandle ''advapi32.dll'' 2146959360,
        Call_GetProcAddress 2146959360 ''OpenProcessToken'' 2146963456,
        Call_GetProcAddress 2146959360 ''LookupPrivilegeValueA'' 2146963456,
        Call_GetProcAddress 2146959360 ''AdjustTokenPrivileges'' 2146963456,
        Call_OpenProcessToken (- 1) 40 True 68,
        Call_LookupPrivilegeValue ''SeLockMemoryPrivilege'' True 4,
        Call_AdjustTokenPrivileges 68 [(4, 2)] 16 True,
        Call_GetLastError 1300, Call_CloseHandle 68,
        Call_VirtualAlloc 1 12288 4 0x40000000]\<rparr>,
    [(23, 3)])"
  by (simp add: aligned_large_pages_alloc_win32_def aligned_large_pages_alloc_windows_def
      example_defs header_defs Let_def)

lemma run_linux_overflow:
  "aligned_large_pages_alloc linux_build sample_crt granting_os 18446744073709551615
     holding_privs =
    (\<lparr>outcome = Returned 0x40000000,
     trace = [Call_aligned_alloc 2097152 0 0x40000000, Call_madvise 0x40000000 0 14]\<rparr>,
     [(4, 0), (23, 3)])"
  by (simp add: aligned_large_pages_alloc_def aligned_large_pages_alloc_posix_def
      std_aligned_alloc_def example_defs header_defs Let_def)


text \<open>Usable memory under the allocators' contracts.\<close>

lemma assumed_page_size_valid: "valid_alignment (assumed_page_size cfg)"
proof (cases "def_linux cfg")
  case True
  have "\<exists>k<64. (2 * 1024 * 1024 :: size_t) = 2 ^ k" by (intro exI [of _ 21]) simp
  with True show ?thesis
    by (simp add: valid_alignment_def power_of_two_def assumed_page_size_def sizeof_pointer_def)
next
  case False
  have "\<exists>k<64. (4096 :: size_t) = 2 ^ k" by (intro exI [of _ 12]) simp
  with False show ?thesis
    by (simp add: valid_alignment_def power_of_two_def assumed_page_size_def sizeof_pointer_def)
qed

lemma std_aligned_alloc_meets:
  assumes "crt_contract rt" and "valid_alignment a"
    and "outcome (std_aligned_alloc cfg rt a n) = Returned p"
  shows "aligned_or_null rt a n p"
proof -
  obtain rc m where pm: "posix_memalign rt a n = (rc, m)"
    by (cases "posix_memalign rt a n")
  have posix: "aligned_or_null rt a n (if rc \<noteq> 0 then nullptr else m)"
  proof (cases "rc = 0")
    case True
    with assms(1,2) pm show ?thesis by (simp add: crt_contract_def)
  next
    case False
    then show ?thesis by (simp add: aligned_or_null_def)
  qed
  show ?thesis
    using assms posix
    by (auto simp add: std_aligned_alloc_def pm Let_def crt_contract_def split: if_splits)
qed

lemma posix_outcome:
  "outcome (aligned_large_pages_alloc_posix cfg rt s) =
     outcome (std_aligned_alloc cfg rt (assumed_page_size cfg)
       (((s + assumed_page_size cfg - 1) div assumed_page_size cfg) * assumed_page_size cfg))"
  by (cases "posix_memalign rt (assumed_page_size cfg)
       (((s + assumed_page_size cfg - 1) div assumed_page_size cfg) * assumed_page_size cfg)")
     (simp add: aligned_large_pages_alloc_posix_def std_aligned_alloc_def assumed_page_size_def
        Let_def)

lemma posix_usable:
  assumes "crt_contract rt" and "unat s + unat (assumed_page_size cfg) - 1 < 2 ^ 64"
    and "outcome (aligned_large_pages_alloc_posix cfg rt s) = Returned mem"
  shows "mem = nullptr \<or> writable rt mem s"
proof -
  let ?g = "assumed_page_size cfg"
  let ?sz = "((s + ?g - 1) div ?g) * ?g"
  have g: "0 < unat ?g" by (simp add: assumed_page_size_def)
  have u: "unat ?sz = round_up (unat s) (unat ?g)"
    unfolding round_up_def using g assms(2) by (intro div_round_up) simp_all
  have "unat s \<le> unat ?sz" unfolding u using g by (rule round_up_ge)
  then have le: "s \<le> ?sz" by (simp add: word_le_nat_alt)
  have "outcome (std_aligned_alloc cfg rt ?g ?sz) = Returned mem"
    using assms(3) by (simp add: posix_outcome)
  from std_aligned_alloc_meets [OF assms(1) assumed_page_size_valid this]
  have "mem = nullptr \<or> writable rt mem ?sz" by (auto simp: aligned_or_null_def)
  moreover have "writable rt mem ?sz \<Longrightarrow> writable rt mem s"
    using assms(1) le unfolding crt_contract_def by blast
  ultimately show ?thesis by blast
qed

lemma win32_usable:
  assumes c: "virtual_alloc_contract os"
    and e: "lock_memory_enabled cfg os privs \<longrightarrow> power_of_two (GetLargePageMinimum os)
              \<and> unat s + unat (GetLargePageMinimum os) - 1 < 2 ^ 64"
  shows "\<exists>mem. outcome (fst (aligned_large_pages_alloc_win32 cfg os s privs)) = Returned mem
           \<and> (mem = nullptr \<or> readwrite os mem s)"
proof -
  let ?g = "GetLargePageMinimum os"
  let ?sz = "(s + ?g - 1) AND NOT (?g - 1)"
  let ?ty = "MEM_RESERVE OR MEM_COMMIT OR MEM_LARGE_PAGES"
  let ?fb = "VirtualAlloc os s (MEM_RESERVE OR MEM_COMMIT) PAGE_READWRITE"
  obtain large tr privs' where h: "aligned_large_pages_alloc_windows cfg os s privs =
     (\<lparr>outcome = Returned large, trace = tr\<rparr>, privs')"
    using helper_shape by blast
  have fb: "?fb = nullptr \<or> readwrite os ?fb s"
    using c unfolding virtual_alloc_contract_def by blast
  have lg: "large = 0 \<or> readwrite os large s"
  proof (cases "lock_memory_enabled cfg os privs")
    case False
    from helper_not_enabled [OF False, of s] show ?thesis by (simp add: h nullptr_def)
  next
    case True
    from helper_enabled [OF True, of s] have l: "large = VirtualAlloc os ?sz ?ty PAGE_READWRITE"
      by (auto simp: h)
    from True e obtain k where k: "k < 64" "?g = 2 ^ k"
      and o: "unat s + unat ?g - 1 < 2 ^ 64"
      by (auto simp: power_of_two_def)
    have gk: "unat ?g = 2 ^ k" using k by (simp add: unat_2p)
    have "unat ((s + 2 ^ k - 1) AND NOT (2 ^ k - 1)) = ((unat s + 2 ^ k - 1) div 2 ^ k) * 2 ^ k"
      using k(1) o by (intro mask_round_up) (simp_all add: gk)
    then have u: "unat ?sz = round_up (unat s) (unat ?g)"
      by (simp add: round_up_def k(2) unat_2p [OF k(1)])
    have "unat s \<le> unat ?sz" unfolding u by (rule round_up_ge) (simp add: gk)
    then have le: "s \<le> ?sz" by (simp add: word_le_nat_alt)
    have "large = nullptr \<or> readwrite os large ?sz"
      using c unfolding virtual_alloc_contract_def l by blast
    moreover have "readwrite os large ?sz \<Longrightarrow> readwrite os large s"
      using c le unfolding virtual_alloc_contract_def by blast
    ultimately show ?thesis by (auto simp: nullptr_def)
  qed
  show ?thesis
    using fb lg by (auto simp add: win32_alloc_unfold [OF h] nullptr_def)
qed

lemma sample_crt_contract: "crt_contract sample_crt"
  unfolding crt_contract_def
proof (intro conjI allI impI)
  fix a n m
  assume "posix_memalign sample_crt a n = (0, m)"
  then show "aligned_or_null sample_crt a n m"
    using sample_crt_aligned [of a n] by (auto simp: sample_crt_def split: if_splits)
next
  fix a n show "aligned_or_null sample_crt a n (mm_malloc sample_crt n a)"
    using sample_crt_aligned [of a n] by (simp add: sample_crt_def)
next
  fix a n show "aligned_or_null sample_crt a n (aligned_malloc sample_crt n a)"
    using sample_crt_aligned [of a n] by (simp add: sample_crt_def)
next
  fix a n show "aligned_or_null sample_crt a n (aligned_alloc sample_crt a n)"
    using sample_crt_aligned [of a n] by (simp add: sample_crt_def)
next
  fix p n m :: size_t
  assume "writable sample_crt p n" "m \<le> n"
  then show "writable sample_crt p m" by (auto simp: sample_crt_def)
qed

lemma granting_os_contract: "virtual_alloc_contract granting_os"
  by (simp add: virtual_alloc_contract_def granting_os_def)

subsection \<open>Release\<close>

text \<open>
  Claim C2. In the Windows build, when \<^verbatim>\<open>VirtualFree\<close> reports failure for a non-null
  pointer, \<^verbatim>\<open>aligned_large_pages_free\<close> writes one line to \<^verbatim>\<open>std::cerr\<close> (the message,
  the error code in hexadecimal, and the line end: the text has exactly one newline, its
  last character) and the process exits with \<^verbatim>\<open>EXIT_FAILURE\<close>, which is not zero. In a
  build without \<^verbatim>\<open>_WIN32\<close>, \<^verbatim>\<open>aligned_large_pages_free\<close> is \<^verbatim>\<open>std_aligned_free\<close>, which
  returns for every pointer and writes nothing.
\<close>

theorem free_failure_is_fatal:
  assumes "def_WIN32 cfg" and "mem \<noteq> nullptr"
    and "VirtualFree os mem 0 MEM_RELEASE = (False, err)"
  shows "outcome (aligned_large_pages_free cfg os mem) = Exited EXIT_FAILURE
    \<and> EXIT_FAILURE \<noteq> 0
    \<and> cerr_text (trace (aligned_large_pages_free cfg os mem)) =
        ''Failed to free large page memory. Error code: 0x'' @ hex_digits (unat err) @ endl
    \<and> count_list (cerr_text (trace (aligned_large_pages_free cfg os mem))) (CHR 0x0A) = 1
    \<and> last (cerr_text (trace (aligned_large_pages_free cfg os mem))) = CHR 0x0A
    \<and> (\<forall>cfg' os' p. \<not> def_WIN32 cfg' \<longrightarrow>
          aligned_large_pages_free cfg' os' p = std_aligned_free cfg' p
          \<and> outcome (std_aligned_free cfg' p) = Returned ()
          \<and> cerr_text (trace (std_aligned_free cfg' p)) = [])"
proof -
  let ?r = "aligned_large_pages_free cfg os mem"
  have r: "?r = \<lparr>outcome = Exited EXIT_FAILURE,
      trace = [Call_VirtualFree mem 0 MEM_RELEASE False, Call_GetLastError err,
               Write_cerr ''Failed to free large page memory. Error code: 0x'',
               Write_cerr (hex_digits (unat err)), Write_cerr endl]\<rparr>"
    using assms
    by (simp add: aligned_large_pages_free_def aligned_large_pages_free_win32_def nullptr_def)
  have msg: "cerr_text (trace ?r) =
      ''Failed to free large page memory. Error code: 0x'' @ hex_digits (unat err) @ endl"
    by (simp add: r cerr_text_def)
  have cnt: "count_list (cerr_text (trace ?r)) (CHR 0x0A) = 1"
    by (simp add: msg endl_def count_list_absent [OF hex_digits_no_newline])
  have lst: "last (cerr_text (trace ?r)) = CHR 0x0A"
    by (simp add: msg endl_def)
  have reg: "\<forall>cfg' os' p. \<not> def_WIN32 cfg' \<longrightarrow>
          aligned_large_pages_free cfg' os' p = std_aligned_free cfg' p
          \<and> outcome (std_aligned_free cfg' p) = Returned ()
          \<and> cerr_text (trace (std_aligned_free cfg' p)) = []"
    by (simp add: aligned_large_pages_free_def std_aligned_free_def cerr_text_def)
  show ?thesis
    using r msg cnt lst reg by (simp add: EXIT_FAILURE_def)
qed

theorem free_failure_is_fatal_witness:
  "outcome (aligned_large_pages_free win64_build failing_free_os 0x40000000) = Exited 1
   \<and> cerr_text (trace (aligned_large_pages_free win64_build failing_free_os 0x40000000)) =
        ''Failed to free large page memory. Error code: 0x1e7'' @ [CHR 0x0A]
   \<and> outcome (aligned_large_pages_free linux_build failing_free_os 0x40000000) = Returned ()"
proof -
  have w: "def_WIN32 win64_build" by (simp add: win64_build_def)
  have m: "(0x40000000 :: ptr) \<noteq> nullptr" by (simp add: nullptr_def)
  have f: "VirtualFree failing_free_os 0x40000000 0 MEM_RELEASE = (False, 487)"
    by (simp add: failing_free_os_def granting_os_def)
  have l: "\<not> def_WIN32 linux_build" by (simp add: linux_build_def)
  have h: "hex_digits 487 = ''1e7''"
    by (simp add: hex_digits.simps hex_digit_def)
  from free_failure_is_fatal [OF w m f] l show ?thesis
    by (simp add: h endl_def EXIT_FAILURE_def)
qed

text \<open>
  Claim C8. For every build, \<^verbatim>\<open>std_aligned_free(nullptr)\<close> and
  \<^verbatim>\<open>aligned_large_pages_free(nullptr)\<close> return, release no pointer and write nothing to
  \<^verbatim>\<open>std::cerr\<close>. \<^verbatim>\<open>std_aligned_free\<close> makes one call, the back end's release function
  on the null pointer; the Windows \<^verbatim>\<open>aligned_large_pages_free\<close> makes no call at all.
\<close>

theorem null_free_is_noop:
  "outcome (std_aligned_free cfg nullptr) = Returned ()
   \<and> trace (std_aligned_free cfg nullptr)
        \<in> {[Call_free nullptr], [Call_mm_free nullptr], [Call_aligned_free nullptr]}
   \<and> released (trace (std_aligned_free cfg nullptr)) = []
   \<and> cerr_text (trace (std_aligned_free cfg nullptr)) = []
   \<and> outcome (aligned_large_pages_free cfg os nullptr) = Returned ()
   \<and> released (trace (aligned_large_pages_free cfg os nullptr)) = []
   \<and> cerr_text (trace (aligned_large_pages_free cfg os nullptr)) = []
   \<and> trace (aligned_large_pages_free_win32 os nullptr) = []"
  by (simp add: std_aligned_free_def aligned_large_pages_free_def
      aligned_large_pages_free_win32_def released_def cerr_text_def nullptr_def)

subsection \<open>Aligned allocation\<close>

text \<open>
  Claim C3. Let the alignment be a power of two and a multiple of the pointer size, and
  let each of the four allocators keep its own contract for such alignments (the pointer
  it gives is null, or a multiple of the alignment and writable for the size; for
  \<^verbatim>\<open>posix_memalign\<close>, when it returns 0). Then, whichever back end the build selects,
  \<^verbatim>\<open>std_aligned_alloc\<close> returns (it never exits), and the pointer it returns is null, or a
  multiple of the alignment and writable for the size.
\<close>

theorem std_aligned_alloc_contract:
  assumes "valid_alignment a"
    and "\<forall>a n m. valid_alignment a \<longrightarrow> posix_memalign rt a n = (0, m)
           \<longrightarrow> aligned_or_null rt a n m"
    and "\<forall>a n. valid_alignment a \<longrightarrow> aligned_or_null rt a n (mm_malloc rt n a)"
    and "\<forall>a n. valid_alignment a \<longrightarrow> aligned_or_null rt a n (aligned_malloc rt n a)"
    and "\<forall>a n. valid_alignment a \<longrightarrow> aligned_or_null rt a n (aligned_alloc rt a n)"
  shows "\<exists>p. outcome (std_aligned_alloc cfg rt a n) = Returned p \<and> aligned_or_null rt a n p"
proof -
  obtain rc m where pm: "posix_memalign rt a n = (rc, m)"
    by (cases "posix_memalign rt a n")
  have posix: "aligned_or_null rt a n (if rc \<noteq> 0 then nullptr else m)"
  proof (cases "rc = 0")
    case True
    with assms(1,2) pm show ?thesis by simp
  next
    case False
    then show ?thesis by (simp add: aligned_or_null_def)
  qed
  show ?thesis
    using assms(1,3,4,5) posix
    by (simp add: std_aligned_alloc_def pm Let_def)
qed

theorem std_aligned_alloc_contract_witness:
  "(\<exists>p. outcome (std_aligned_alloc posix_build sample_crt 64 1) = Returned p
        \<and> aligned_or_null sample_crt 64 1 p)
   \<and> outcome (std_aligned_alloc posix_build sample_crt 64 1) = Returned 0x40000000
   \<and> valid_alignment 64"
proof -
  have v: "valid_alignment 64"
    unfolding valid_alignment_def power_of_two_def sizeof_pointer_def
    by (intro conjI exI [of _ 6]) simp_all
  have p: "\<forall>a n m. valid_alignment a \<longrightarrow> posix_memalign sample_crt a n = (0, m)
              \<longrightarrow> aligned_or_null sample_crt a n m"
    using sample_crt_aligned by (auto simp: sample_crt_def split: if_splits)
  have q: "\<forall>a n. valid_alignment a
              \<longrightarrow> aligned_or_null sample_crt a n (mm_malloc sample_crt n a)"
    using sample_crt_aligned by (simp add: sample_crt_def)
  have r: "\<forall>a n. valid_alignment a
              \<longrightarrow> aligned_or_null sample_crt a n (aligned_malloc sample_crt n a)"
    using sample_crt_aligned by (simp add: sample_crt_def)
  have t: "\<forall>a n. valid_alignment a
              \<longrightarrow> aligned_or_null sample_crt a n (aligned_alloc sample_crt a n)"
    using sample_crt_aligned by (simp add: sample_crt_def)
  have "outcome (std_aligned_alloc posix_build sample_crt 64 1) = Returned 0x40000000"
    by (simp add: std_aligned_alloc_def posix_build_def sample_crt_def block_at_def)
  with std_aligned_alloc_contract [OF v p q r t, of posix_build 1] v show ?thesis
    by simp
qed

subsection \<open>Large-page allocation\<close>

text \<open>
  Claim C1. In a Windows build \<^verbatim>\<open>aligned_large_pages_alloc\<close> always returns (it never
  exits); the pointer is the helper's when that is not null and otherwise the answer of the
  regular \<^verbatim>\<open>VirtualAlloc\<close> for the requested size. So it is not null whenever the regular
  allocation succeeds, and it is null only when the helper gave null and the regular
  allocation failed; the helper gives null whenever the privilege was not enabled. In a
  build without \<^verbatim>\<open>_WIN32\<close> there is one path only, and the function returns what
  \<^verbatim>\<open>std_aligned_alloc\<close> returns.
\<close>

theorem fallback_gives_memory:
  "(def_WIN32 cfg \<longrightarrow>
      (\<exists>mem large.
         outcome (fst (aligned_large_pages_alloc cfg rt os s privs)) = Returned mem
         \<and> outcome (fst (aligned_large_pages_alloc_windows cfg os s privs)) = Returned large
         \<and> mem = (if large = nullptr
                   then VirtualAlloc os s (MEM_RESERVE OR MEM_COMMIT) PAGE_READWRITE
                   else large)
         \<and> (VirtualAlloc os s (MEM_RESERVE OR MEM_COMMIT) PAGE_READWRITE \<noteq> nullptr
              \<longrightarrow> mem \<noteq> nullptr)
         \<and> (mem = nullptr \<longrightarrow> large = nullptr
              \<and> VirtualAlloc os s (MEM_RESERVE OR MEM_COMMIT) PAGE_READWRITE = nullptr)
         \<and> (\<not> lock_memory_enabled cfg os privs \<longrightarrow> large = nullptr)))
   \<and> (\<not> def_WIN32 cfg \<longrightarrow>
        outcome (fst (aligned_large_pages_alloc cfg rt os s privs)) =
        outcome (std_aligned_alloc cfg rt (assumed_page_size cfg)
                   (((s + assumed_page_size cfg - 1) div assumed_page_size cfg)
                      * assumed_page_size cfg))
        \<and> (\<exists>mem. outcome (fst (aligned_large_pages_alloc cfg rt os s privs)) = Returned mem))"
proof (intro conjI impI)
  assume w: "def_WIN32 cfg"
  obtain large tr privs' where h: "aligned_large_pages_alloc_windows cfg os s privs =
     (\<lparr>outcome = Returned large, trace = tr\<rparr>, privs')"
    using helper_shape by blast
  have n: "\<not> lock_memory_enabled cfg os privs \<longrightarrow> large = nullptr"
    using helper_not_enabled [of cfg os privs s] by (simp add: h)
  show "\<exists>mem large.
         outcome (fst (aligned_large_pages_alloc cfg rt os s privs)) = Returned mem
         \<and> outcome (fst (aligned_large_pages_alloc_windows cfg os s privs)) = Returned large
         \<and> mem = (if large = nullptr
                   then VirtualAlloc os s (MEM_RESERVE OR MEM_COMMIT) PAGE_READWRITE
                   else large)
         \<and> (VirtualAlloc os s (MEM_RESERVE OR MEM_COMMIT) PAGE_READWRITE \<noteq> nullptr
              \<longrightarrow> mem \<noteq> nullptr)
         \<and> (mem = nullptr \<longrightarrow> large = nullptr
              \<and> VirtualAlloc os s (MEM_RESERVE OR MEM_COMMIT) PAGE_READWRITE = nullptr)
         \<and> (\<not> lock_memory_enabled cfg os privs \<longrightarrow> large = nullptr)"
    using w n
    by (simp add: aligned_large_pages_alloc_def win32_alloc_unfold [OF h] h nullptr_def)
next
  assume "\<not> def_WIN32 cfg"
  then show "outcome (fst (aligned_large_pages_alloc cfg rt os s privs)) =
        outcome (std_aligned_alloc cfg rt (assumed_page_size cfg)
                   (((s + assumed_page_size cfg - 1) div assumed_page_size cfg)
                      * assumed_page_size cfg))"
    by (simp add: aligned_large_pages_alloc_def aligned_large_pages_alloc_posix_def
        assumed_page_size_def Let_def std_aligned_alloc_def split_beta)
next
  assume "\<not> def_WIN32 cfg"
  then show "\<exists>mem. outcome (fst (aligned_large_pages_alloc cfg rt os s privs)) = Returned mem"
    by (simp add: aligned_large_pages_alloc_def aligned_large_pages_alloc_posix_def
        assumed_page_size_def Let_def std_aligned_alloc_def split_beta)
qed

theorem fallback_gives_memory_witness:
  "outcome (fst (aligned_large_pages_alloc win64_build sample_crt granting_os 4096 lacking_privs))
     = Returned 0x40000000
   \<and> outcome (fst (aligned_large_pages_alloc_windows win64_build granting_os 4096 lacking_privs))
     = Returned nullptr
   \<and> \<not> lock_memory_enabled win64_build granting_os lacking_privs
   \<and> outcome (fst (aligned_large_pages_alloc win32_only_build sample_crt granting_os 4096 holding_privs))
     = Returned 0x40000000
   \<and> outcome (fst (aligned_large_pages_alloc linux_build sample_crt granting_os 4096 holding_privs))
     = Returned 0x40000000"
proof -
  have e: "\<not> lock_memory_enabled win64_build granting_os lacking_privs"
    by (simp add: lock_memory_enabled_def negotiation_defs win64_build_def granting_os_def
        lacking_privs_def adjust_token_def ERROR_SUCCESS_def)
  have e32: "\<not> lock_memory_enabled win32_only_build granting_os holding_privs"
    by (simp add: lock_memory_enabled_def win32_only_build_def win64_build_def)
  have w: "def_WIN32 win64_build" "def_WIN32 win32_only_build" "\<not> def_WIN32 linux_build"
    by (simp_all add: win64_build_def win32_only_build_def linux_build_def)
  have v: "VirtualAlloc granting_os 4096 (MEM_RESERVE OR MEM_COMMIT) PAGE_READWRITE = 0x40000000"
    by (simp add: granting_os_def)
  have l: "std_aligned_alloc linux_build sample_crt (assumed_page_size linux_build)
             (((4096 + assumed_page_size linux_build - 1) div assumed_page_size linux_build)
                * assumed_page_size linux_build)
           = \<lparr>outcome = Returned 0x40000000,
               trace = [Call_aligned_alloc 0x200000 0x200000 0x40000000]\<rparr>"
    by (simp add: std_aligned_alloc_def linux_build_def assumed_page_size_def sample_crt_def
        block_at_def)
  show ?thesis
    using fallback_gives_memory [of win64_build sample_crt granting_os 4096 lacking_privs]
      fallback_gives_memory [of win32_only_build sample_crt granting_os 4096 holding_privs]
      fallback_gives_memory [of linux_build sample_crt granting_os 4096 holding_privs]
      e e32 w v l
    by (auto simp add: nullptr_def)
qed

text \<open>
  Claim C9. In a Windows build without \<^verbatim>\<open>_WIN64\<close> the helper returns null without
  making a call, and \<^verbatim>\<open>aligned_large_pages_alloc\<close> makes exactly one call, the regular
  \<^verbatim>\<open>VirtualAlloc\<close> (no large-page flag, no \<^verbatim>\<open>madvise\<close>). In a build without
  \<^verbatim>\<open>_WIN32\<close> the calls are those of \<^verbatim>\<open>std_aligned_alloc\<close>, followed by
  \<^verbatim>\<open>madvise(mem, size, MADV_HUGEPAGE)\<close> exactly when \<^verbatim>\<open>MADV_HUGEPAGE\<close> is defined.
\<close>

theorem fallback_asymmetry:
  "(def_WIN32 cfg \<and> \<not> def_WIN64 cfg \<longrightarrow>
      aligned_large_pages_alloc_windows cfg os s privs =
        (\<lparr>outcome = Returned nullptr, trace = []\<rparr>, privs)
      \<and> fst (aligned_large_pages_alloc cfg rt os s privs) =
          \<lparr>outcome = Returned (VirtualAlloc os s (MEM_RESERVE OR MEM_COMMIT) PAGE_READWRITE),
           trace = [Call_VirtualAlloc s (MEM_RESERVE OR MEM_COMMIT) PAGE_READWRITE
                      (VirtualAlloc os s (MEM_RESERVE OR MEM_COMMIT) PAGE_READWRITE)]\<rparr>
      \<and> \<not> list_ex large_page_request (trace (fst (aligned_large_pages_alloc cfg rt os s privs)))
      \<and> \<not> list_ex madvise_call (trace (fst (aligned_large_pages_alloc cfg rt os s privs))))
   \<and> (\<not> def_WIN32 cfg \<longrightarrow>
        (\<exists>mem sz. std_aligned_alloc cfg rt (assumed_page_size cfg) sz =
             \<lparr>outcome = Returned mem,
              trace = trace (std_aligned_alloc cfg rt (assumed_page_size cfg) sz)\<rparr>
           \<and> fst (aligned_large_pages_alloc cfg rt os s privs) =
             \<lparr>outcome = Returned mem,
              trace = trace (std_aligned_alloc cfg rt (assumed_page_size cfg) sz) @
                (if def_MADV_HUGEPAGE cfg then [Call_madvise mem sz MADV_HUGEPAGE] else [])\<rparr>
           \<and> \<not> list_ex madvise_call (trace (std_aligned_alloc cfg rt (assumed_page_size cfg) sz))))"
proof (intro conjI impI)
  assume a: "def_WIN32 cfg \<and> \<not> def_WIN64 cfg"
  then show h: "aligned_large_pages_alloc_windows cfg os s privs =
        (\<lparr>outcome = Returned nullptr, trace = []\<rparr>, privs)"
    by (simp add: aligned_large_pages_alloc_windows_def)
  show r: "fst (aligned_large_pages_alloc cfg rt os s privs) =
          \<lparr>outcome = Returned (VirtualAlloc os s (MEM_RESERVE OR MEM_COMMIT) PAGE_READWRITE),
           trace = [Call_VirtualAlloc s (MEM_RESERVE OR MEM_COMMIT) PAGE_READWRITE
                      (VirtualAlloc os s (MEM_RESERVE OR MEM_COMMIT) PAGE_READWRITE)]\<rparr>"
    using a by (simp add: aligned_large_pages_alloc_def win32_alloc_unfold [OF h] nullptr_def)
  show "\<not> list_ex large_page_request (trace (fst (aligned_large_pages_alloc cfg rt os s privs)))"
    by (simp add: r regular_type_not_large)
  show "\<not> list_ex madvise_call (trace (fst (aligned_large_pages_alloc cfg rt os s privs)))"
    by (simp add: r)
next
  assume a: "\<not> def_WIN32 cfg"
  let ?sz = "((s + assumed_page_size cfg - 1) div assumed_page_size cfg) * assumed_page_size cfg"
  obtain mem where m: "outcome (std_aligned_alloc cfg rt (assumed_page_size cfg) ?sz) = Returned mem"
    using std_aligned_alloc_returns by blast
  then have 1: "std_aligned_alloc cfg rt (assumed_page_size cfg) ?sz =
             \<lparr>outcome = Returned mem,
              trace = trace (std_aligned_alloc cfg rt (assumed_page_size cfg) ?sz)\<rparr>"
    by simp
  have 2: "fst (aligned_large_pages_alloc cfg rt os s privs) =
             \<lparr>outcome = Returned mem,
              trace = trace (std_aligned_alloc cfg rt (assumed_page_size cfg) ?sz) @
                (if def_MADV_HUGEPAGE cfg then [Call_madvise mem ?sz MADV_HUGEPAGE] else [])\<rparr>"
    using a m
    by (simp add: aligned_large_pages_alloc_def aligned_large_pages_alloc_posix_def Let_def
        assumed_page_size_def)
  have 3: "\<not> list_ex madvise_call (trace (std_aligned_alloc cfg rt (assumed_page_size cfg) ?sz))"
    by (rule std_aligned_alloc_no_madvise)
  from 1 2 3 show "\<exists>mem sz. std_aligned_alloc cfg rt (assumed_page_size cfg) sz =
             \<lparr>outcome = Returned mem,
              trace = trace (std_aligned_alloc cfg rt (assumed_page_size cfg) sz)\<rparr>
           \<and> fst (aligned_large_pages_alloc cfg rt os s privs) =
             \<lparr>outcome = Returned mem,
              trace = trace (std_aligned_alloc cfg rt (assumed_page_size cfg) sz) @
                (if def_MADV_HUGEPAGE cfg then [Call_madvise mem sz MADV_HUGEPAGE] else [])\<rparr>
           \<and> \<not> list_ex madvise_call (trace (std_aligned_alloc cfg rt (assumed_page_size cfg) sz))"
    by blast
qed

theorem fallback_asymmetry_witness:
  "fst (aligned_large_pages_alloc win32_only_build sample_crt granting_os 5000 holding_privs) =
     \<lparr>outcome = Returned 0x40000000,
      trace = [Call_VirtualAlloc 5000 (MEM_RESERVE OR MEM_COMMIT) PAGE_READWRITE 0x40000000]\<rparr>
   \<and> list_ex madvise_call
        (trace (fst (aligned_large_pages_alloc linux_build sample_crt granting_os 5000
                       holding_privs)))
   \<and> \<not> list_ex madvise_call
        (trace (fst (aligned_large_pages_alloc posix_build sample_crt granting_os 5000
                       holding_privs)))"
proof -
  have w: "def_WIN32 win32_only_build \<and> \<not> def_WIN64 win32_only_build"
    by (simp add: win32_only_build_def win64_build_def)
  have v: "VirtualAlloc granting_os 5000 (MEM_RESERVE OR MEM_COMMIT) PAGE_READWRITE = 0x40000000"
    by (simp add: granting_os_def)
  have l: "\<not> def_WIN32 linux_build" "def_MADV_HUGEPAGE linux_build"
    by (simp_all add: linux_build_def)
  have p: "\<not> def_WIN32 posix_build" "\<not> def_MADV_HUGEPAGE posix_build"
    by (simp_all add: posix_build_def)
  from fallback_asymmetry [of win32_only_build granting_os 5000 holding_privs sample_crt] w v
  have 1: "fst (aligned_large_pages_alloc win32_only_build sample_crt granting_os 5000 holding_privs) =
     \<lparr>outcome = Returned 0x40000000,
      trace = [Call_VirtualAlloc 5000 (MEM_RESERVE OR MEM_COMMIT) PAGE_READWRITE 0x40000000]\<rparr>"
    by simp
  from fallback_asymmetry [of linux_build granting_os 5000 holding_privs sample_crt] l
  have 2: "list_ex madvise_call
        (trace (fst (aligned_large_pages_alloc linux_build sample_crt granting_os 5000
                       holding_privs)))"
    by auto
  from fallback_asymmetry [of posix_build granting_os 5000 holding_privs sample_crt] p
  have 3: "\<not> list_ex madvise_call
        (trace (fst (aligned_large_pages_alloc posix_build sample_crt granting_os 5000
                       holding_privs)))"
    by auto
  from 1 2 3 show ?thesis by blast
qed

text \<open>
  Claim C4, as stated, fails in two places. In a Windows build the regular fallback
  \<^verbatim>\<open>VirtualAlloc\<close> is asked for the size the caller gave, not for the rounded size: with
  2 MiB large pages and a request of 1 byte it is asked for 1 byte. And the rounding wraps
  around: on Linux a request of \<open>2^64 - 1\<close> bytes asks \<^verbatim>\<open>std_aligned_alloc\<close> for 0 bytes
  and returns the block it gets.
\<close>

theorem fallback_size_counterexample:
  "requested (trace (fst (aligned_large_pages_alloc win64_build sample_crt granting_os 1
                            lacking_privs))) = [1]
   \<and> round_up (unat (1 :: size_t)) (unat (GetLargePageMinimum granting_os)) = 2097152
   \<and> requested (trace (fst (aligned_large_pages_alloc win64_build sample_crt granting_os 1
                            lacking_privs))) \<noteq> [2097152]
   \<and> aligned_large_pages_alloc linux_build sample_crt granting_os 18446744073709551615
         holding_privs =
       (\<lparr>outcome = Returned 0x40000000,
         trace = [Call_aligned_alloc 2097152 0 0x40000000,
                  Call_madvise 0x40000000 0 MADV_HUGEPAGE]\<rparr>, [(4, 0), (23, 3)])
   \<and> unat (18446744073709551615 :: size_t) = 2 ^ 64 - 1"
proof -
  have 1: "requested (trace (fst (aligned_large_pages_alloc win64_build sample_crt granting_os 1
                            lacking_privs))) = [1]"
    by (simp add: aligned_large_pages_alloc_def win64_build_def [THEN arg_cong, of def_WIN32]
        run_lacking requested_def)
  then have 2: "requested (trace (fst (aligned_large_pages_alloc win64_build sample_crt
                  granting_os 1 lacking_privs))) \<noteq> [2097152]"
    by simp
  have 3: "round_up (unat (1 :: size_t)) (unat (GetLargePageMinimum granting_os)) = 2097152"
    by (simp add: round_up_def granting_os_def)
  have 4: "aligned_large_pages_alloc linux_build sample_crt granting_os
         18446744073709551615 holding_privs =
       (\<lparr>outcome = Returned 0x40000000,
         trace = [Call_aligned_alloc 2097152 0 0x40000000,
                  Call_madvise 0x40000000 0 MADV_HUGEPAGE]\<rparr>, [(4, 0), (23, 3)])"
    by (simp add: run_linux_overflow MADV_HUGEPAGE_def)
  have 5: "unat (18446744073709551615 :: size_t) = 2 ^ 64 - 1" by simp
  from 1 2 3 4 5 show ?thesis by blast
qed

text \<open>
  Claim C4, amended. When \<open>s + g - 1\<close> does not exceed \<open>2^64 - 1\<close>: without \<^verbatim>\<open>_WIN32\<close>
  the one allocation is asked for \<open>s\<close> rounded up to a multiple of \<open>g\<close>, the assumed page
  size (2 MiB on Linux, 4096 otherwise), and its answer is what the function returns; in
  the Windows helper, when the privilege was enabled and \<open>g = GetLargePageMinimum()\<close> is a
  power of two, the large-page allocation is asked for \<open>s\<close> rounded up to a multiple of
  \<open>g\<close>, and its answer is what the helper returns. Both sizes are at least \<open>s\<close>. When the
  helper gives null, the regular Windows fallback is asked for \<open>s\<close> itself, not for the
  rounded size, and its answer is what the function returns. On every path the memory
  returned is null or usable for at least \<open>s\<close> bytes, the allocators keeping their
  contracts. 10 MiB rounded up to a multiple of 2 MiB is 10 MiB.
\<close>

theorem allocation_size_rounding:
  "(\<not> def_WIN32 cfg \<and> unat s + unat (assumed_page_size cfg) - 1 < 2 ^ 64 \<longrightarrow>
      (\<exists>sz mem. requested (trace (fst (aligned_large_pages_alloc cfg rt os s privs))) = [sz]
          \<and> unat sz = round_up (unat s) (unat (assumed_page_size cfg))
          \<and> unat s \<le> unat sz
          \<and> outcome (std_aligned_alloc cfg rt (assumed_page_size cfg) sz) = Returned mem
          \<and> outcome (fst (aligned_large_pages_alloc cfg rt os s privs)) = Returned mem
          \<and> (crt_contract rt \<longrightarrow> mem = nullptr \<or> writable rt mem s)))
   \<and> unat (assumed_page_size cfg) = (if def_linux cfg then 2 * 1024 * 1024 else 4096)
   \<and> (lock_memory_enabled cfg os privs \<and> power_of_two (GetLargePageMinimum os)
        \<and> unat s + unat (GetLargePageMinimum os) - 1 < 2 ^ 64 \<longrightarrow>
      (\<exists>sz. requested (trace (fst (aligned_large_pages_alloc_windows cfg os s privs))) = [sz]
          \<and> unat sz = round_up (unat s) (unat (GetLargePageMinimum os))
          \<and> unat s \<le> unat sz
          \<and> outcome (fst (aligned_large_pages_alloc_windows cfg os s privs)) =
              Returned (VirtualAlloc os sz (MEM_RESERVE OR MEM_COMMIT OR MEM_LARGE_PAGES)
                          PAGE_READWRITE)))
   \<and> (outcome (fst (aligned_large_pages_alloc_windows cfg os s privs)) = Returned nullptr \<longrightarrow>
        requested (trace (fst (aligned_large_pages_alloc_win32 cfg os s privs))) =
          requested (trace (fst (aligned_large_pages_alloc_windows cfg os s privs))) @ [s]
        \<and> outcome (fst (aligned_large_pages_alloc_win32 cfg os s privs)) =
             Returned (VirtualAlloc os s (MEM_RESERVE OR MEM_COMMIT) PAGE_READWRITE))
   \<and> (\<not> lock_memory_enabled cfg os privs \<longrightarrow>
        requested (trace (fst (aligned_large_pages_alloc_win32 cfg os s privs))) = [s])
   \<and> (def_WIN32 cfg \<and> virtual_alloc_contract os
        \<and> (lock_memory_enabled cfg os privs \<longrightarrow> power_of_two (GetLargePageMinimum os)
              \<and> unat s + unat (GetLargePageMinimum os) - 1 < 2 ^ 64) \<longrightarrow>
      (\<exists>mem. outcome (fst (aligned_large_pages_alloc cfg rt os s privs)) = Returned mem
          \<and> (mem = nullptr \<or> readwrite os mem s)))
   \<and> round_up (10 * 1024 * 1024) (2 * 1024 * 1024) = 10 * 1024 * 1024"
proof (intro conjI impI)
  assume a: "\<not> def_WIN32 cfg \<and> unat s + unat (assumed_page_size cfg) - 1 < 2 ^ 64"
  let ?g = "assumed_page_size cfg"
  let ?sz = "((s + ?g - 1) div ?g) * ?g"
  have g: "0 < unat ?g" by (simp add: assumed_page_size_def)
  have r: "requested (trace (fst (aligned_large_pages_alloc cfg rt os s privs))) = [?sz]"
    using a by (simp add: aligned_large_pages_alloc_def posix_requested)
  have u: "unat ?sz = round_up (unat s) (unat ?g)"
    unfolding round_up_def using g a by (intro div_round_up) simp_all
  have le: "unat s \<le> unat ?sz"
    unfolding u using g by (rule round_up_ge)
  obtain mem where m: "outcome (std_aligned_alloc cfg rt ?g ?sz) = Returned mem"
    using std_aligned_alloc_returns by blast
  have p: "outcome (aligned_large_pages_alloc_posix cfg rt s) = Returned mem"
    by (simp add: posix_outcome m)
  then have o: "outcome (fst (aligned_large_pages_alloc cfg rt os s privs)) = Returned mem"
    using a by (simp add: aligned_large_pages_alloc_def)
  have w: "crt_contract rt \<longrightarrow> mem = nullptr \<or> writable rt mem s"
    using posix_usable [OF _ _ p] a by blast
  from r u le m o w
  show "\<exists>sz mem. requested (trace (fst (aligned_large_pages_alloc cfg rt os s privs))) = [sz]
          \<and> unat sz = round_up (unat s) (unat (assumed_page_size cfg))
          \<and> unat s \<le> unat sz
          \<and> outcome (std_aligned_alloc cfg rt (assumed_page_size cfg) sz) = Returned mem
          \<and> outcome (fst (aligned_large_pages_alloc cfg rt os s privs)) = Returned mem
          \<and> (crt_contract rt \<longrightarrow> mem = nullptr \<or> writable rt mem s)"
    by blast
next
  show "unat (assumed_page_size cfg) = (if def_linux cfg then 2 * 1024 * 1024 else 4096)"
    by (rule assumed_page_size_unat)
next
  assume a: "lock_memory_enabled cfg os privs \<and> power_of_two (GetLargePageMinimum os)
        \<and> unat s + unat (GetLargePageMinimum os) - 1 < 2 ^ 64"
  let ?g = "GetLargePageMinimum os"
  let ?sz = "(s + ?g - 1) AND NOT (?g - 1)"
  from a obtain k where k: "k < 64" "?g = 2 ^ k"
    by (auto simp: power_of_two_def)
  have gk: "unat ?g = 2 ^ k" using k by (simp add: unat_2p)
  from helper_enabled [of cfg os privs s] a
  have r: "requested (trace (fst (aligned_large_pages_alloc_windows cfg os s privs))) = [?sz]"
    by (auto simp: requested_def)
  from helper_enabled [of cfg os privs s] a
  have o: "outcome (fst (aligned_large_pages_alloc_windows cfg os s privs)) =
      Returned (VirtualAlloc os ?sz (MEM_RESERVE OR MEM_COMMIT OR MEM_LARGE_PAGES) PAGE_READWRITE)"
    by auto
  have "unat ((s + 2 ^ k - 1) AND NOT (2 ^ k - 1)) = ((unat s + 2 ^ k - 1) div 2 ^ k) * 2 ^ k"
    using k(1) a by (intro mask_round_up) (simp_all add: gk)
  then have u: "unat ?sz = round_up (unat s) (unat ?g)"
    by (simp add: round_up_def k(2) unat_2p [OF k(1)])
  have "unat s \<le> unat ?sz"
    unfolding u by (rule round_up_ge) (simp add: gk)
  with r u o
  show "\<exists>sz. requested (trace (fst (aligned_large_pages_alloc_windows cfg os s privs))) = [sz]
          \<and> unat sz = round_up (unat s) (unat (GetLargePageMinimum os))
          \<and> unat s \<le> unat sz
          \<and> outcome (fst (aligned_large_pages_alloc_windows cfg os s privs)) =
              Returned (VirtualAlloc os sz (MEM_RESERVE OR MEM_COMMIT OR MEM_LARGE_PAGES)
                          PAGE_READWRITE)"
    by blast
next
  assume a: "outcome (fst (aligned_large_pages_alloc_windows cfg os s privs)) = Returned nullptr"
  obtain large tr privs' where h: "aligned_large_pages_alloc_windows cfg os s privs =
     (\<lparr>outcome = Returned large, trace = tr\<rparr>, privs')"
    using helper_shape by blast
  have l: "large = 0" using a by (simp add: h nullptr_def)
  then show "requested (trace (fst (aligned_large_pages_alloc_win32 cfg os s privs))) =
          requested (trace (fst (aligned_large_pages_alloc_windows cfg os s privs))) @ [s]"
    by (simp add: win32_alloc_unfold [OF h] h requested_def)
  from l show "outcome (fst (aligned_large_pages_alloc_win32 cfg os s privs)) =
             Returned (VirtualAlloc os s (MEM_RESERVE OR MEM_COMMIT) PAGE_READWRITE)"
    by (simp add: win32_alloc_unfold [OF h])
next
  assume a: "\<not> lock_memory_enabled cfg os privs"
  obtain large tr privs' where h: "aligned_large_pages_alloc_windows cfg os s privs =
     (\<lparr>outcome = Returned large, trace = tr\<rparr>, privs')"
    using helper_shape by blast
  from helper_not_enabled [OF a, of s] have "large = 0" "requested tr = []"
    by (simp_all add: h nullptr_def)
  then show "requested (trace (fst (aligned_large_pages_alloc_win32 cfg os s privs))) = [s]"
    by (simp add: win32_alloc_unfold [OF h] requested_def)
next
  assume a: "def_WIN32 cfg \<and> virtual_alloc_contract os
        \<and> (lock_memory_enabled cfg os privs \<longrightarrow> power_of_two (GetLargePageMinimum os)
              \<and> unat s + unat (GetLargePageMinimum os) - 1 < 2 ^ 64)"
  then have "\<exists>mem. outcome (fst (aligned_large_pages_alloc_win32 cfg os s privs)) = Returned mem
           \<and> (mem = nullptr \<or> readwrite os mem s)"
    by (intro win32_usable) blast+
  then show "\<exists>mem. outcome (fst (aligned_large_pages_alloc cfg rt os s privs)) = Returned mem
          \<and> (mem = nullptr \<or> readwrite os mem s)"
    using a by (simp add: aligned_large_pages_alloc_def)
next
  show "round_up (10 * 1024 * 1024) (2 * 1024 * 1024) = 10 * 1024 * 1024"
    by (simp add: round_up_def)
qed

theorem allocation_size_rounding_witness:
  "(\<exists>sz. requested (trace (fst (aligned_large_pages_alloc linux_build sample_crt granting_os
                                    (10 * 1024 * 1024) holding_privs))) = [sz]
         \<and> unat sz = 10 * 1024 * 1024)
   \<and> outcome (fst (aligned_large_pages_alloc linux_build sample_crt granting_os
                      (10 * 1024 * 1024) holding_privs)) = Returned 0x40000000
   \<and> writable sample_crt 0x40000000 (10 * 1024 * 1024)
   \<and> (\<exists>sz. requested (trace (fst (aligned_large_pages_alloc_windows win64_build granting_os
                                    4096 holding_privs))) = [sz]
         \<and> unat sz = 2 * 1024 * 1024)
   \<and> requested (trace (fst (aligned_large_pages_alloc_win32 win64_build granting_os
                               1 lacking_privs))) = [1]
   \<and> (\<exists>mem. outcome (fst (aligned_large_pages_alloc win64_build sample_crt granting_os 4096
                             holding_privs)) = Returned mem
          \<and> (mem = nullptr \<or> readwrite granting_os mem 4096))"
proof -
  have l: "\<not> def_WIN32 linux_build
      \<and> unat (10 * 1024 * 1024 :: size_t) + unat (assumed_page_size linux_build) - 1 < 2 ^ 64"
    by (simp add: linux_build_def assumed_page_size_def)
  have r: "round_up (unat (10 * 1024 * 1024 :: size_t)) (unat (assumed_page_size linux_build))
             = 10 * 1024 * 1024"
    by (simp add: round_up_def linux_build_def assumed_page_size_def)
  have g: "lock_memory_enabled win64_build granting_os holding_privs
      \<and> power_of_two (GetLargePageMinimum granting_os)
      \<and> unat (4096 :: size_t) + unat (GetLargePageMinimum granting_os) - 1 < 2 ^ 64"
    unfolding power_of_two_def
    by (intro conjI exI [of _ 21])
       (simp_all add: lock_memory_enabled_def negotiation_defs example_defs header_defs)
  have r2: "round_up (unat (4096 :: size_t)) (unat (GetLargePageMinimum granting_os))
             = 2 * 1024 * 1024"
    by (simp add: round_up_def granting_os_def)
  have n: "\<not> lock_memory_enabled win64_build granting_os lacking_privs"
    by (simp add: lock_memory_enabled_def negotiation_defs example_defs header_defs)
  have run: "outcome (fst (aligned_large_pages_alloc linux_build sample_crt granting_os
                      (10 * 1024 * 1024) holding_privs)) = Returned 0x40000000"
    by (simp add: aligned_large_pages_alloc_def aligned_large_pages_alloc_posix_def
        std_aligned_alloc_def example_defs header_defs Let_def)
  have w64: "def_WIN32 win64_build" by (simp add: win64_build_def)
  note t1 = allocation_size_rounding
         [of linux_build "10 * 1024 * 1024" sample_crt granting_os holding_privs]
  from t1 l r
  have 1: "\<exists>sz. requested (trace (fst (aligned_large_pages_alloc linux_build sample_crt
             granting_os (10 * 1024 * 1024) holding_privs))) = [sz]
         \<and> unat sz = 10 * 1024 * 1024"
    by auto
  from t1 l run sample_crt_contract
  have 2: "writable sample_crt 0x40000000 (10 * 1024 * 1024)"
    by (auto simp: nullptr_def)
  note t2 = allocation_size_rounding [of win64_build 4096 sample_crt granting_os holding_privs]
  from t2 g r2
  have 3: "\<exists>sz. requested (trace (fst (aligned_large_pages_alloc_windows win64_build granting_os
                                    4096 holding_privs))) = [sz]
         \<and> unat sz = 2 * 1024 * 1024"
    by auto
  from allocation_size_rounding [of win64_build 1 sample_crt granting_os lacking_privs] n
  have 4: "requested (trace (fst (aligned_large_pages_alloc_win32 win64_build granting_os
                               1 lacking_privs))) = [1]"
    by blast
  from t2 g w64 granting_os_contract
  have 5: "\<exists>mem. outcome (fst (aligned_large_pages_alloc win64_build sample_crt granting_os 4096
                             holding_privs)) = Returned mem
          \<and> (mem = nullptr \<or> readwrite granting_os mem 4096)"
    by blast
  from 1 run 2 3 4 5 show ?thesis by blast
qed

subsection \<open>Privilege negotiation\<close>

text \<open>
  Claim C5. When \<^verbatim>\<open>GetLargePageMinimum\<close> gives 0, or one of the three entry points of
  \<^verbatim>\<open>advapi32.dll\<close> is missing, or \<^verbatim>\<open>OpenProcessToken\<close> fails, or the privilege is not
  found, or \<^verbatim>\<open>AdjustTokenPrivileges\<close> fails, or \<^verbatim>\<open>GetLastError\<close> is not
  \<^verbatim>\<open>ERROR_SUCCESS\<close> after it, the helper returns the null pointer and writes nothing to
  \<^verbatim>\<open>std::cerr\<close>, and \<^verbatim>\<open>aligned_large_pages_alloc\<close> returns too: no failure ends the
  process.
\<close>

theorem negotiation_failure_is_soft:
  assumes "GetLargePageMinimum os = 0
    \<or> GetProcAddress os (advapi32 os) ''OpenProcessToken'' = 0
    \<or> GetProcAddress os (advapi32 os) ''LookupPrivilegeValueA'' = 0
    \<or> GetProcAddress os (advapi32 os) ''AdjustTokenPrivileges'' = 0
    \<or> \<not> token_opened os
    \<or> \<not> privilege_found os
    \<or> \<not> adjusted os privs
    \<or> adjust_error os privs \<noteq> ERROR_SUCCESS"
  shows "outcome (fst (aligned_large_pages_alloc_windows cfg os s privs)) = Returned nullptr
    \<and> cerr_text (trace (fst (aligned_large_pages_alloc_windows cfg os s privs))) = []
    \<and> (\<exists>mem. outcome (fst (aligned_large_pages_alloc_win32 cfg os s privs)) = Returned mem)"
proof -
  have n: "\<not> lock_memory_enabled cfg os privs"
    using assms unfolding lock_memory_enabled_def by blast
  obtain large tr privs' where h: "aligned_large_pages_alloc_windows cfg os s privs =
     (\<lparr>outcome = Returned large, trace = tr\<rparr>, privs')"
    using helper_shape by blast
  have "\<exists>mem. outcome (fst (aligned_large_pages_alloc_win32 cfg os s privs)) = Returned mem"
    by (simp add: win32_alloc_unfold [OF h])
  with helper_not_enabled [OF n, of s] show ?thesis by simp
qed

theorem negotiation_failure_is_soft_witness:
  "adjust_error granting_os lacking_privs = 1300
   \<and> outcome (fst (aligned_large_pages_alloc_windows win64_build granting_os 4096 lacking_privs))
        = Returned nullptr
   \<and> outcome (fst (aligned_large_pages_alloc_win32 win64_build granting_os 4096 lacking_privs))
        = Returned 0x40000000"
proof -
  have e: "adjust_error granting_os lacking_privs = 1300"
    by (simp add: negotiation_defs granting_os_def lacking_privs_def adjust_token_def)
  then have f: "adjust_error granting_os lacking_privs \<noteq> ERROR_SUCCESS"
    by (simp add: ERROR_SUCCESS_def)
  have "GetLargePageMinimum granting_os = 0
    \<or> GetProcAddress granting_os (advapi32 granting_os) ''OpenProcessToken'' = 0
    \<or> GetProcAddress granting_os (advapi32 granting_os) ''LookupPrivilegeValueA'' = 0
    \<or> GetProcAddress granting_os (advapi32 granting_os) ''AdjustTokenPrivileges'' = 0
    \<or> \<not> token_opened granting_os
    \<or> \<not> privilege_found granting_os
    \<or> \<not> adjusted granting_os lacking_privs
    \<or> adjust_error granting_os lacking_privs \<noteq> ERROR_SUCCESS"
    using f by blast
  from negotiation_failure_is_soft [OF this, of win64_build 4096]
  have r: "outcome (fst (aligned_large_pages_alloc_windows win64_build granting_os 4096 lacking_privs))
        = Returned nullptr" by blast
  obtain tr p where h: "aligned_large_pages_alloc_windows win64_build granting_os 4096 lacking_privs
      = (\<lparr>outcome = Returned nullptr, trace = tr\<rparr>, p)"
    using helper_shape [of win64_build granting_os 4096 lacking_privs] r by auto
  have v: "VirtualAlloc granting_os 4096 (MEM_RESERVE OR MEM_COMMIT) PAGE_READWRITE = 0x40000000"
    by (simp add: granting_os_def)
  have "outcome (fst (aligned_large_pages_alloc_win32 win64_build granting_os 4096 lacking_privs))
        = Returned 0x40000000"
    by (simp add: win32_alloc_unfold [OF h] nullptr_def v)
  with e r show ?thesis by simp
qed

text \<open>
  Claim C6. In every run of the Windows \<^verbatim>\<open>aligned_large_pages_alloc\<close>, a
  \<^verbatim>\<open>VirtualAlloc\<close> call with the large-page flag comes directly after the call of
  \<^verbatim>\<open>AdjustTokenPrivileges\<close> that enables the privilege returned true and
  \<^verbatim>\<open>GetLastError\<close> returned \<^verbatim>\<open>ERROR_SUCCESS\<close>, and every step of the negotiation
  succeeded.
\<close>

theorem large_pages_only_after_privilege:
  assumes "trace (fst (aligned_large_pages_alloc_win32 cfg os s privs)) = pre @ e # post"
    and "large_page_request e"
  shows "lock_memory_enabled cfg os privs
    \<and> (\<exists>pre'. pre = pre' @
          [Call_AdjustTokenPrivileges (process_token os)
             [(lock_memory_luid os, SE_PRIVILEGE_ENABLED)] sizeof_TOKEN_PRIVILEGES True,
           Call_GetLastError ERROR_SUCCESS])"
proof (cases "lock_memory_enabled cfg os privs")
  case False
  obtain large tr privs' where h: "aligned_large_pages_alloc_windows cfg os s privs =
     (\<lparr>outcome = Returned large, trace = tr\<rparr>, privs')"
    using helper_shape by blast
  from helper_not_enabled [OF False, of s]
  have l: "large = 0" and t: "\<not> list_ex large_page_request tr"
    by (simp_all add: h nullptr_def)
  have "\<not> list_ex large_page_request (trace (fst (aligned_large_pages_alloc_win32 cfg os s privs)))"
    using t by (simp add: win32_alloc_unfold [OF h] l regular_type_not_large)
  with assms show ?thesis using no_split by metis
next
  case True
  let ?sz = "(s + GetLargePageMinimum os - 1) AND NOT (GetLargePageMinimum os - 1)"
  let ?ty = "MEM_RESERVE OR MEM_COMMIT OR MEM_LARGE_PAGES"
  let ?a = "Call_AdjustTokenPrivileges (process_token os)
             [(lock_memory_luid os, SE_PRIVILEGE_ENABLED)] sizeof_TOKEN_PRIVILEGES True"
  let ?v = "Call_VirtualAlloc ?sz ?ty PAGE_READWRITE (VirtualAlloc os ?sz ?ty PAGE_READWRITE)"
  from helper_enabled [OF True, of s] obtain p0 restored privs' where
    h: "aligned_large_pages_alloc_windows cfg os s privs =
      (\<lparr>outcome = Returned (VirtualAlloc os ?sz ?ty PAGE_READWRITE),
        trace = p0 @ [?a, Call_GetLastError ERROR_SUCCESS, ?v,
          Call_AdjustTokenPrivileges (process_token os) (saved_state os privs) 0 restored,
          Call_CloseHandle (process_token os)]\<rparr>, privs')"
    and p0: "\<not> list_ex large_page_request p0"
    by blast
  obtain rest where tr: "trace (fst (aligned_large_pages_alloc_win32 cfg os s privs)) =
      (p0 @ [?a, Call_GetLastError ERROR_SUCCESS]) @ ?v #
      (Call_AdjustTokenPrivileges (process_token os) (saved_state os privs) 0 restored
         # Call_CloseHandle (process_token os) # rest)"
    and rest: "\<not> list_ex large_page_request rest"
    by (cases "VirtualAlloc os ?sz ?ty PAGE_READWRITE = 0")
       (simp_all add: win32_alloc_unfold [OF h] regular_type_not_large)
  have eq: "(p0 @ [?a, Call_GetLastError ERROR_SUCCESS]) @ ?v #
      (Call_AdjustTokenPrivileges (process_token os) (saved_state os privs) 0 restored
         # Call_CloseHandle (process_token os) # rest) = pre @ e # post"
    using tr assms(1) by simp
  have "\<not> list_ex large_page_request (p0 @ [?a, Call_GetLastError ERROR_SUCCESS])"
    and "\<not> list_ex large_page_request
      (Call_AdjustTokenPrivileges (process_token os) (saved_state os privs) 0 restored
         # Call_CloseHandle (process_token os) # rest)"
    using p0 rest by simp_all
  with unique_split [where P = large_page_request, OF eq assms(2)]
  have "pre = p0 @ [?a, Call_GetLastError ERROR_SUCCESS]" by blast
  with True show ?thesis by blast
qed

theorem large_pages_only_after_privilege_witness:
  "lock_memory_enabled win64_build granting_os holding_privs
   \<and> large_page_request (Call_VirtualAlloc 2097152 536883200 4 0x40000000)
   \<and> Call_VirtualAlloc 2097152 536883200 4 0x40000000
        \<in> set (trace (fst (aligned_large_pages_alloc_win32 win64_build granting_os 4096
                              holding_privs)))"
proof -
  let ?pre = "[Call_GetLargePageMinimum 2097152,
        Call_GetModuleHandle ''advapi32.dll'' 2146959360,
        Call_GetProcAddress 2146959360 ''OpenProcessToken'' 2146963456,
        Call_GetProcAddress 2146959360 ''LookupPrivilegeValueA'' 2146963456,
        Call_GetProcAddress 2146959360 ''AdjustTokenPrivileges'' 2146963456,
        Call_OpenProcessToken (- 1) 40 True 68,
        Call_LookupPrivilegeValue ''SeLockMemoryPrivilege'' True 4,
        Call_AdjustTokenPrivileges 68 [(4, 2)] 16 True, Call_GetLastError 0]"
  let ?e = "Call_VirtualAlloc 2097152 536883200 4 0x40000000"
  let ?post = "[Call_AdjustTokenPrivileges 68 [(4, 0)] 0 True, Call_CloseHandle 68]"
  have t: "trace (fst (aligned_large_pages_alloc_win32 win64_build granting_os 4096
                              holding_privs)) = ?pre @ ?e # ?post"
    by (simp add: win32_alloc_unfold [OF run_granting])
  have l: "large_page_request ?e"
    by (simp add: MEM_LARGE_PAGES_def)
  from large_pages_only_after_privilege [OF t l] t l show ?thesis
    by simp
qed

text \<open>
  Claim C7. When a run of the helper contains a successful \<^verbatim>\<open>OpenProcessToken\<close> that
  stored the handle \<open>h\<close>, the last call of the run is \<^verbatim>\<open>CloseHandle(h)\<close>, and the handle is
  not closed before; this holds whatever the lookup, the adjustment and the allocation
  answer.
\<close>

theorem token_handle_closed:
  assumes "Call_OpenProcessToken process access True h
             \<in> set (trace (fst (aligned_large_pages_alloc_windows cfg os s privs)))"
  shows "\<exists>pre. trace (fst (aligned_large_pages_alloc_windows cfg os s privs))
                 = pre @ [Call_CloseHandle h]
               \<and> Call_CloseHandle h \<notin> set pre"
  using assms
  unfolding aligned_large_pages_alloc_windows_def
  by (auto simp add: Let_def split_beta split: if_splits)

theorem token_handle_closed_witness:
  "last (trace (fst (aligned_large_pages_alloc_windows win64_build granting_os 4096
                       holding_privs))) = Call_CloseHandle 68
   \<and> Call_OpenProcessToken (- 1) 40 True 68
        \<in> set (trace (fst (aligned_large_pages_alloc_windows win64_build granting_os 4096
                              holding_privs)))"
proof -
  have o: "Call_OpenProcessToken (- 1) 40 True 68
        \<in> set (trace (fst (aligned_large_pages_alloc_windows win64_build granting_os 4096
                              holding_privs)))"
    by (simp add: run_granting)
  from token_handle_closed [OF o] obtain pre where
    "trace (fst (aligned_large_pages_alloc_windows win64_build granting_os 4096 holding_privs))
       = pre @ [Call_CloseHandle 68]"
    by blast
  then have "last (trace (fst (aligned_large_pages_alloc_windows win64_build granting_os 4096
                       holding_privs))) = Call_CloseHandle 68"
    by simp
  with o show ?thesis by simp
qed



end
